theory Spec2Isabelle
  imports Complex_Main "HOL-Library.Word" "HOL-Library.Sublist" "HOL-Library.Signed_Division"
begin

section \<open>Go values and library operations used by the gateway\<close>

text \<open>
  Go strings are byte sequences and \<open>len\<close> counts bytes, so a Go string is a \<open>string\<close>
  (a list of 8-bit characters). \<open>int64\<close> is a 64-bit word read through \<open>sint\<close>.
\<close>

type_synonym int64 = "64 word"

text \<open>
  An instant as \<open>time.Time\<close> holds it: whole seconds since the Unix epoch and a nanosecond
  part. \<open>time_Unix\<close> follows \<open>time.Unix(sec, nsec)\<close>, which brings \<open>nsec\<close> into
  \<open>[0, 1e9)\<close>; \<open>time_UnixMilli\<close> follows \<open>time.UnixMilli(msec)\<close>. Go's \<open>/\<close> and \<open>%\<close>
  truncate towards zero (\<open>sdiv\<close>, \<open>smod\<close>). \<open>.UTC()\<close> changes the location only, not the
  instant.
\<close>

record Time =
  unix_sec :: int
  unix_nsec :: int

definition time_Unix :: "int \<Rightarrow> int \<Rightarrow> Time" where
  "time_Unix sec nsec =
     (if nsec < 0 \<or> 1000000000 \<le> nsec then
        (let n = nsec sdiv 1000000000;
             sec1 = sec + n;
             nsec1 = nsec - n * 1000000000
         in if nsec1 < 0 then \<lparr>unix_sec = sec1 - 1, unix_nsec = nsec1 + 1000000000\<rparr>
            else \<lparr>unix_sec = sec1, unix_nsec = nsec1\<rparr>)
      else \<lparr>unix_sec = sec, unix_nsec = nsec\<rparr>)"

definition time_UnixMilli :: "int \<Rightarrow> Time" where
  "time_UnixMilli msec = time_Unix (msec sdiv 1000) ((msec smod 1000) * 1000000)"

text \<open>The number of nanoseconds between the epoch and an instant (unbounded).\<close>

definition unix_nanos :: "Time \<Rightarrow> int" where
  "unix_nanos t = unix_sec t * 1000000000 + unix_nsec t"

section \<open>Timestamp normalisation (handleUpload, lines 166-175)\<close>

text \<open>
  \<^verbatim>\<open>raw := *reading.Timestamp
  if raw < 1_000_000_000_000 { ts = time.Unix(raw, 0).UTC() }
  else { ts = time.UnixMilli(raw).UTC() }\<close>
  The comparison is the signed comparison of \<open>int64\<close>.
\<close>

definition normalizeTimestamp :: "int64 \<Rightarrow> Time" where
  "normalizeTimestamp raw =
     (if sint raw < 1000000000000 then time_Unix (sint raw) 0
      else time_UnixMilli (sint raw))"

section \<open>Requests, readings, responses\<close>

text \<open>
  What \<open>encoding/json\<close> decodes into a field of type \<open>any\<close>: \<open>nil\<close> (for JSON null or an
  absent field), \<open>float64\<close>, \<open>string\<close>, \<open>bool\<close>, a slice or a map. The number carried by
  \<open>JNumber\<close> plays no part in any decision of the handler.
\<close>

datatype json_value =
    JNull
  | JNumber real
  | JString string
  | JBool bool
  | JArray "json_value list"
  | JObject "(string \<times> json_value) list"

text \<open>\<open>type SensorReading struct\<close>: the pointer fields are \<open>None\<close> when nil.\<close>

record SensorReading =
  SensorID :: "string option"
  Timestamp :: "int64 option"
  Value :: json_value
  Status :: "string option"

text \<open>
  The parts of \<open>*http.Request\<close> the handlers read. \<open>Authorization\<close>, \<open>org_id\<close> and
  \<open>sensor_id\<close> are what \<open>Header.Get\<close> and \<open>URL.Query().Get\<close> return (the empty string when
  absent). \<open>Body\<close> is the result of \<open>json.NewDecoder(r.Body).Decode(&reading)\<close>: the error
  text, or the decoded reading.
\<close>

record request =
  Method :: string
  Path :: string
  Authorization :: string
  org_id :: string
  sensor_id :: string
  Body :: "string + SensorReading"

record response =
  status :: nat
  content_type :: string
  body :: string

text \<open>A handler either writes a response or panics (a slice out of range, a nil dereference).\<close>

datatype outcome = Responded response | Panicked

text \<open>\<open>http.Error(w, msg, code)\<close> writes the message and a newline as plain text.\<close>

definition http_Error :: "string \<Rightarrow> nat \<Rightarrow> response" where
  "http_Error msg code =
     \<lparr>status = code, content_type = ''text/plain; charset=utf-8'', body = msg @ [CHR 0x0A]\<rparr>"

definition HasPrefix :: "string \<Rightarrow> string \<Rightarrow> bool" where
  "HasPrefix s p = (take (length p) s = p)"

definition TrimPrefix :: "string \<Rightarrow> string \<Rightarrow> string" where
  "TrimPrefix s p = (if HasPrefix s p then drop (length p) s else s)"

text \<open>
  The slice expression \<open>s[lo:hi]\<close> on a string, with the indices as Go computes them (signed):
  it panics, here \<open>None\<close>, unless \<open>0 \<le> lo \<le> hi \<le> len(s)\<close>.
\<close>

definition go_slice :: "string \<Rightarrow> int \<Rightarrow> int \<Rightarrow> string option" where
  "go_slice s lo hi =
     (if 0 \<le> lo \<and> lo \<le> hi \<and> hi \<le> int (length s)
      then Some (take (nat (hi - lo)) (drop (nat lo) s))
      else None)"

text \<open>The point handed to \<open>influxdb3.NewPoint\<close>: measurement, tags, fields, timestamp.\<close>

record Point =
  measurement :: string
  tags :: "string \<rightharpoonup> string"
  point_fields :: "string \<rightharpoonup> json_value"
  timestamp :: Time

section \<open>Collaborators\<close>

text \<open>
  The answer of the time-series store to a query: the call fails, or it returns an iterator.
  The iterator yields rows (each a map from column name to value) and may end with an error,
  which \<open>iterator.Err()\<close> reports after the loop.
\<close>

datatype qvalue = QInt64 int64 | QFloat real | QString string

datatype query_result =
    QueryError
  | QueryRows "(string \<rightharpoonup> qvalue) list" bool

text \<open>
  The identity store and the time-series store as the handler sees them:
  \<open>token_get org key\<close> and \<open>sensor_get org sensor\<close> say whether \<open>docRef.Get\<close> returned
  without error (the document exists and the lookup did not time out);
  \<open>influx_query bucket sql\<close> is the answer to a query; \<open>marshal_ok\<close> and \<open>influx_write_ok\<close>
  say whether \<open>point.MarshalBinary\<close> and \<open>influxClient.Write\<close> succeed;
  \<open>init_ok\<close> says whether \<open>initClients\<close> returns without error.
\<close>

record env =
  init_ok :: bool
  token_get :: "string \<Rightarrow> string \<Rightarrow> bool"
  sensor_get :: "string \<Rightarrow> string \<Rightarrow> bool"
  influx_query :: "string \<Rightarrow> string \<Rightarrow> query_result"
  marshal_ok :: "Point \<Rightarrow> bool"
  influx_write_ok :: "string \<Rightarrow> Point \<Rightarrow> bool"

text \<open>
  The gates of the pipeline, and what a run leaves behind: \<open>Enter g\<close> when control reaches the
  first statement of gate \<open>g\<close>, and one event for each call to a collaborator, in program order.
  The gates are the steps of \<open>handleUpload\<close>: MethodCheck (step 1), AuthHeaderPresent (step 2),
  ParamsPresent (step 3), AccessControl (step 4), RateLimit (step 5), DecodePayload (step 6, the
  \<open>Decode\<close> call), ReadingValidate (the rest of step 6: default sensor id, timestamp,
  \<open>validateReading\<close>), RetentionClassify (step 7), QuotaGuard (step 8), Write (steps 9-11).
\<close>

datatype gate =
    MethodCheck | AuthHeaderPresent | ParamsPresent | AccessControl | RateLimit
  | DecodePayload | ReadingValidate | RetentionClassify | QuotaGuard | Write

datatype event =
    Enter gate
  | TokenLookup string string
  | SensorLookup string string
  | LimiterAllow string
  | CountQuery string string
  | PointWrite string Point

section \<open>Rate limiter registry\<close>

text \<open>
  Modelled from the spec: the token bucket behind \<open>rate.NewLimiter\<close> and \<open>limiter.Allow\<close>
  (package golang.org/x/time/rate), whose code is not under src/. The spec's rate limiter entry
  holds capacity, refill rate, current tokens and last-refill time; a bucket is created full,
  gains \<open>refill_rate\<close> tokens per second up to \<open>capacity\<close>, and a request is allowed when a
  whole token is there to take. The clock is read in nanoseconds and passed in.
\<close>

record Limiter =
  capacity :: nat
  refill_rate :: rat
  current_tokens :: rat
  last_refill :: nat

definition NewLimiter :: "rat \<Rightarrow> nat \<Rightarrow> Limiter" where
  "NewLimiter r b = \<lparr>capacity = b, refill_rate = r, current_tokens = of_nat b, last_refill = 0\<rparr>"

definition advance :: "Limiter \<Rightarrow> nat \<Rightarrow> rat" where
  "advance lm t =
     (let last0 = (if t < last_refill lm then t else last_refill lm);
          elapsed = t - last0;
          delta = (of_nat elapsed / 1000000000) * refill_rate lm
      in min (of_nat (capacity lm)) (current_tokens lm + delta))"

definition Allow :: "Limiter \<Rightarrow> nat \<Rightarrow> bool \<times> Limiter" where
  "Allow lm t =
     (let tk = advance lm t - 1
      in if 1 \<le> capacity lm \<and> 0 \<le> tk
         then (True, lm\<lparr>current_tokens := tk, last_refill := t\<rparr>)
         else (False, lm))"

text \<open>
  \<open>var limiters = make(map[string]*rate.Limiter)\<close>: the registry is the store of the limiters,
  and the pointer \<open>getRateLimiter\<close> returns is the key under which the limiter lives.
\<close>

type_synonym limiters = "string \<rightharpoonup> Limiter"

definition getRateLimiter :: "limiters \<Rightarrow> string \<Rightarrow> string \<Rightarrow> string \<times> limiters" where
  "getRateLimiter lims apiKey sensorID =
     (let key = apiKey @ '':'' @ sensorID
      in case lims key of
           Some limiter \<Rightarrow> (key, lims)
         | None \<Rightarrow> (key, lims(key \<mapsto> NewLimiter 2 2)))"

text \<open>\<open>limiter.Allow()\<close> through the pointer, at clock reading \<open>now\<close>.\<close>

definition limiter_Allow :: "limiters \<Rightarrow> string \<Rightarrow> nat \<Rightarrow> bool \<times> limiters" where
  "limiter_Allow lims p now =
     (case lims p of
        None \<Rightarrow> (False, lims)
      | Some limiter \<Rightarrow> (let (ok, limiter1) = Allow limiter now in (ok, lims(p \<mapsto> limiter1))))"

section \<open>Access control\<close>

definition isUploadAllowed :: "string \<Rightarrow> bool" where
  "isUploadAllowed apiKey =
     (if length apiKey < 2 then False
      else (let accessLevel = drop (length apiKey - 2) apiKey
            in if accessLevel = ''02'' \<or> accessLevel = ''03'' \<or> accessLevel = ''04''
               then True else False))"

text \<open>Both validators return their verdict and the lookups they issued.\<close>

definition validateAPIKey :: "env \<Rightarrow> string \<Rightarrow> string \<Rightarrow> bool \<times> event list" where
  "validateAPIKey e orgID apiKey =
     (if \<not> isUploadAllowed apiKey then (False, [])
      else if \<not> token_get e orgID apiKey then (False, [TokenLookup orgID apiKey])
      else (True, [TokenLookup orgID apiKey]))"

definition validateSensorID :: "env \<Rightarrow> string \<Rightarrow> string \<Rightarrow> bool \<times> event list" where
  "validateSensorID e orgID sensorId =
     (if \<not> sensor_get e orgID sensorId then (False, [SensorLookup orgID sensorId])
      else (True, [SensorLookup orgID sensorId]))"

section \<open>Reading validation\<close>

text \<open>\<open>validateReading\<close> returns the error text, or \<open>None\<close> for \<open>nil\<close>.\<close>

definition validateReading :: "SensorReading \<Rightarrow> string option" where
  "validateReading r =
     (if Value r = JNull then Some ''value cannot be null''
      else (case Value r of
              JNumber x \<Rightarrow> None
            | JString x \<Rightarrow> None
            | JBool x \<Rightarrow> None
            | _ \<Rightarrow> Some ''value must be number, string, or boolean''))"

section \<open>Retention tiers and the quota guard\<close>

definition retentionBuckets :: "string \<rightharpoonup> string" where
  "retentionBuckets =
     [''0007'' \<mapsto> ''retention_7d'',
      ''0030'' \<mapsto> ''retention_30d'',
      ''0090'' \<mapsto> ''retention_90d'',
      ''0180'' \<mapsto> ''retention_180d'',
      ''0365'' \<mapsto> ''retention_365d'']"

definition quotaMap :: "string \<rightharpoonup> int64" where
  "quotaMap =
     [''0007'' \<mapsto> 10000,
      ''0030'' \<mapsto> 100000,
      ''0090'' \<mapsto> 1000000,
      ''0180'' \<mapsto> 10000000,
      ''0365'' \<mapsto> 1000000000]"

text \<open>
  The query text: \<open>fmt.Sprintf\<close> puts \<open>orgID\<close>, as it is, in the place of \<open>%s\<close> of the raw
  string literal (which starts with a newline and two tabs and ends with a newline and a tab).
\<close>

definition count_sql :: "string \<Rightarrow> string" where
  \<open>count_sql orgID =
     [CHR 0x0A, CHR 0x09, CHR 0x09]
     @ ''SELECT COUNT(*) AS count FROM sensor_reading WHERE "org" = ''
     @ [CHR 0x27] @ orgID @ [CHR 0x27]
     @ [CHR 0x0A, CHR 0x09]\<close>

text \<open>
  The loop over the iterator: each row whose \<open>count\<close> column is an \<open>int64\<close> overwrites
  \<open>currentCount\<close>, which starts at 0.
\<close>

fun read_count :: "int64 \<Rightarrow> (string \<rightharpoonup> qvalue) list \<Rightarrow> int64" where
  "read_count currentCount [] = currentCount"
| "read_count currentCount (v # rows) =
     (case v ''count'' of
        Some (QInt64 num) \<Rightarrow> read_count num rows
      | _ \<Rightarrow> read_count currentCount rows)"

text \<open>
  \<open>validateCountLimit\<close> returns \<open>Some r\<close> when it wrote the response \<open>r\<close> and returned
  false, \<open>None\<close> when it returned true (and wrote nothing), with the queries it issued.
\<close>

definition validateCountLimit ::
  "env \<Rightarrow> string \<Rightarrow> string \<Rightarrow> string \<Rightarrow> response option \<times> event list" where
  "validateCountLimit e orgID retentionCode bucket =
     (case quotaMap retentionCode of
        None \<Rightarrow> (Some (http_Error ''Unknown retention tier'' 400), [])
      | Some maxPoints \<Rightarrow>
          (let sql = count_sql orgID
           in case influx_query e bucket sql of
                QueryError \<Rightarrow>
                  (Some (http_Error ''Internal Server Error'' 500), [CountQuery bucket sql])
              | QueryRows rows iter_err \<Rightarrow>
                  (let currentCount = read_count 0 rows
                   in if iter_err then
                        (Some (http_Error ''Internal Server Error'' 500), [CountQuery bucket sql])
                      else if sint maxPoints \<le> sint currentCount then
                        (Some (http_Error ''Quota exceeded'' 402), [CountQuery bucket sql])
                      else (None, [CountQuery bucket sql]))))"

section \<open>The upload handler\<close>

text \<open>
  Lines 159-161: \<^verbatim>\<open>if reading.SensorID == nil || *reading.SensorID == "" { reading.SensorID = &sensorID }\<close>
\<close>

definition default_sensor :: "string \<Rightarrow> SensorReading \<Rightarrow> SensorReading" where
  "default_sensor sensorID reading =
     (if SensorID reading = None \<or> SensorID reading = Some []
      then reading\<lparr>SensorID := Some sensorID\<rparr> else reading)"

text \<open>
  Lines 195-200: the tags, the fields (with \<open>status\<close> when the reading has one) and the point.
\<close>

definition make_point :: "string \<Rightarrow> string \<Rightarrow> SensorReading \<Rightarrow> Time \<Rightarrow> Point" where
  "make_point orgID sensorTag reading ts =
     (let tags = [''org'' \<mapsto> orgID, ''sensor'' \<mapsto> sensorTag];
          fields0 = [''value'' \<mapsto> Value reading];
          fields = (case Status reading of
                      Some st \<Rightarrow> fields0(''status'' \<mapsto> JString st)
                    | None \<Rightarrow> fields0)
      in \<lparr>measurement = ''sensor_reading'', tags = tags, point_fields = fields, timestamp = ts\<rparr>)"

text \<open>Line 182: \<^verbatim>\<open>retentionCode := apiKey[len(apiKey)-6 : len(apiKey)-2]\<close>\<close>

definition retention_code :: "string \<Rightarrow> string option" where
  "retention_code apiKey = go_slice apiKey (int (length apiKey) - 6) (int (length apiKey) - 2)"

definition accepted :: response where
  \<open>accepted = \<lparr>status = 202, content_type = ''application/json'',
                body = ''{"status":"accepted"}''\<rparr>\<close>

text \<open>
  \<open>handleUpload\<close>, statement by statement. It takes the collaborators, the limiter registry
  and the clock reading at the rate gate; it returns the outcome, the trace of the run and the
  registry as the run leaves it.
\<close>

definition handleUpload ::
  "env \<Rightarrow> limiters \<Rightarrow> nat \<Rightarrow> request \<Rightarrow> outcome \<times> event list \<times> limiters" where
  "handleUpload e lims now r =
    (let tr1 = [Enter MethodCheck] in
     if Method r \<noteq> ''POST'' then
       (Responded (http_Error ''Method Not Allowed'' 405), tr1, lims)
     else
     let tr2 = tr1 @ [Enter AuthHeaderPresent];
         auth = Authorization r in
     if \<not> HasPrefix auth ''Bearer '' then
       (Responded (http_Error ''Unauthorized'' 401), tr2, lims)
     else
     let apiKey = TrimPrefix auth ''Bearer '';
         tr3 = tr2 @ [Enter ParamsPresent];
         orgID = org_id r;
         sensorID = sensor_id r in
     if orgID = '''' \<or> sensorID = '''' then
       (Responded (http_Error ''Missing org_id or sensor_id query parameter'' 400), tr3, lims)
     else
     let (keyOK, trK) = validateAPIKey e orgID apiKey;
         tr4 = tr3 @ [Enter AccessControl] @ trK in
     if \<not> keyOK then
       (Responded (http_Error ''Unauthorized'' 401), tr4, lims)
     else
     let (sensorOK, trS) = validateSensorID e orgID sensorID;
         tr4s = tr4 @ trS in
     if \<not> sensorOK then
       (Responded (http_Error ''Unauthorized'' 401), tr4s, lims)
     else
     let (limiter, lims1) = getRateLimiter lims apiKey sensorID;
         (allowed, lims2) = limiter_Allow lims1 limiter now;
         tr5 = tr4s @ [Enter RateLimit, LimiterAllow limiter] in
     if \<not> allowed then
       (Responded (http_Error ''Rate limit exceeded'' 429), tr5, lims2)
     else
     let tr6 = tr5 @ [Enter DecodePayload] in
     case Body r of
       Inl err \<Rightarrow> (Responded (http_Error (''Bad Request: '' @ err) 400), tr6, lims2)
     | Inr reading0 \<Rightarrow>
     let tr7 = tr6 @ [Enter ReadingValidate];
         reading = default_sensor sensorID reading0 in
     case Timestamp reading of
       None \<Rightarrow> (Responded (http_Error ''Missing timestamp'' 400), tr7, lims2)
     | Some raw \<Rightarrow>
     let ts = normalizeTimestamp raw in
     case validateReading reading of
       Some err \<Rightarrow> (Responded (http_Error (''Bad Reading: '' @ err) 400), tr7, lims2)
     | None \<Rightarrow>
     let tr8 = tr7 @ [Enter RetentionClassify] in
     case retention_code apiKey of
       None \<Rightarrow> (Panicked, tr8, lims2)
     | Some retentionCode \<Rightarrow>
     let bucket = (case retentionBuckets retentionCode of Some b \<Rightarrow> b | None \<Rightarrow> '''') in
     if bucket = '''' then
       (Responded (http_Error ''Unknown retention level'' 400), tr8, lims2)
     else
     let (rejected, trQ) = validateCountLimit e orgID retentionCode bucket;
         tr9 = tr8 @ [Enter QuotaGuard] @ trQ in
     case rejected of
       Some resp \<Rightarrow> (Responded resp, tr9, lims2)
     | None \<Rightarrow>
     let tr10 = tr9 @ [Enter Write] in
     case SensorID reading of
       None \<Rightarrow> (Panicked, tr10, lims2)
     | Some sensorTag \<Rightarrow>
     let point = make_point orgID sensorTag reading ts in
     if \<not> marshal_ok e point then
       (Responded (http_Error ''Failed to process data'' 500), tr10, lims2)
     else
     if \<not> influx_write_ok e bucket point then
       (Responded (http_Error ''Failed to write data'' 500), tr10 @ [PointWrite bucket point], lims2)
     else
       (Responded accepted, tr10 @ [PointWrite bucket point], lims2))"

text \<open>\<open>UploadHandler\<close>: the clients are initialised on first use, then \<open>handleUpload\<close> runs.\<close>

definition UploadHandler ::
  "env \<Rightarrow> limiters \<Rightarrow> nat \<Rightarrow> request \<Rightarrow> outcome \<times> event list \<times> limiters" where
  "UploadHandler e lims now r =
     (if \<not> init_ok e then (Responded (http_Error ''Internal Server Error'' 500), [], lims)
      else handleUpload e lims now r)"

section \<open>Entry points and routing\<close>

text \<open>
  \<open>http.HandleFunc\<close> registers a pattern on the default \<open>ServeMux\<close>. A pattern ending in a
  slash names a subtree and matches every path it is a prefix of (so \<open>/\<close> matches every path);
  any other pattern matches that path only; the longest matching pattern wins, and a path no
  pattern matches gets 404. Paths are taken as already clean: the redirect with which net/http
  answers a path that needs cleaning (a doubled slash, a dot segment) is not modelled.
\<close>

type_synonym handler =
  "env \<Rightarrow> limiters \<Rightarrow> nat \<Rightarrow> request \<Rightarrow> outcome \<times> event list \<times> limiters"

definition pattern_matches :: "string \<Rightarrow> string \<Rightarrow> bool" where
  "pattern_matches pat path =
     (if pat \<noteq> [] \<and> last pat = CHR ''/'' then HasPrefix path pat else path = pat)"

fun mux_match :: "(string \<times> 'h) list \<Rightarrow> string \<Rightarrow> (string \<times> 'h) option" where
  "mux_match [] path = None"
| "mux_match ((pat, h) # routes) path =
     (case mux_match routes path of
        None \<Rightarrow> (if pattern_matches pat path then Some (pat, h) else None)
      | Some (pat1, h1) \<Rightarrow>
          (if pattern_matches pat path \<and> length pat1 < length pat then Some (pat, h)
           else Some (pat1, h1)))"

definition NotFound :: response where
  "NotFound = http_Error ''404 page not found'' 404"

definition ServeMux :: "(string \<times> handler) list \<Rightarrow> handler" where
  "ServeMux routes e lims now r =
     (case mux_match routes (Path r) of
        None \<Rightarrow> (Responded NotFound, [], lims)
      | Some (pat, h) \<Rightarrow> h e lims now r)"

text \<open>A handler that writes a response and touches nothing else.\<close>

definition plain_handler :: "(request \<Rightarrow> response) \<Rightarrow> handler" where
  "plain_handler f = (\<lambda>e lims now r. (Responded (f r), [], lims))"

text \<open>\<open>api.RootHandler\<close> (src/api/root.go).\<close>

definition RootHandler :: "request \<Rightarrow> response" where
  \<open>RootHandler r = \<lparr>status = 200, content_type = ''application/json'',
     body = ''{"name": "Salkaro API", "version": "1.0.1", "status": "active"}''\<rparr>\<close>

text \<open>The function literal registered under \<open>/health\<close> in src/unnamed/part_000.\<close>

definition healthHandler :: "request \<Rightarrow> response" where
  \<open>healthHandler r = \<lparr>status = 200, content_type = ''application/json'',
     body = ''{"status":"healthy"}''\<rparr>\<close>

text \<open>\<open>main\<close> of src/main.go registers \<open>/\<close> and \<open>/v1/upload\<close>.\<close>

definition main_routes :: "(string \<times> handler) list" where
  "main_routes = [(''/'', plain_handler RootHandler), (''/v1/upload'', UploadHandler)]"

definition main_server :: handler where
  "main_server = ServeMux main_routes"

text \<open>
  \<open>main\<close> of src/unnamed/part_000 registers \<open>/health\<close> and \<open>/v1/upload\<close>; the latter goes to
  \<open>api.Handler\<close>, which package \<open>api\<close> under src/ does not define, so it is a parameter.
\<close>

definition part_000_routes :: "handler \<Rightarrow> (string \<times> handler) list" where
  "part_000_routes api_Handler =
     [(''/health'', plain_handler healthHandler), (''/v1/upload'', api_Handler)]"

definition part_000_server :: "handler \<Rightarrow> handler" where
  "part_000_server api_Handler = ServeMux (part_000_routes api_Handler)"

section \<open>Reading a run\<close>

text \<open>The credential of a request, and the rate gate as one operation (lines 147-148).\<close>

definition bearer :: "request \<Rightarrow> string" where
  "bearer r = TrimPrefix (Authorization r) ''Bearer ''"

definition acquire :: "limiters \<Rightarrow> nat \<Rightarrow> string \<Rightarrow> string \<Rightarrow> bool \<times> limiters" where
  "acquire lims now apiKey sensorID =
     (let (limiter, lims1) = getRateLimiter lims apiKey sensorID
      in limiter_Allow lims1 limiter now)"

fun status_of :: "outcome \<Rightarrow> nat option" where
  "status_of (Responded resp) = Some (status resp)"
| "status_of Panicked = None"

definition outcome_of :: "outcome \<times> event list \<times> limiters \<Rightarrow> outcome" where
  "outcome_of run = fst run"

definition trace_of :: "outcome \<times> event list \<times> limiters \<Rightarrow> event list" where
  "trace_of run = fst (snd run)"

definition registry_of :: "outcome \<times> event list \<times> limiters \<Rightarrow> limiters" where
  "registry_of run = snd (snd run)"

text \<open>The order of the gates, and the gate each event belongs to.\<close>

definition pipeline :: "gate list" where
  "pipeline = [MethodCheck, AuthHeaderPresent, ParamsPresent, AccessControl, RateLimit,
               DecodePayload, ReadingValidate, RetentionClassify, QuotaGuard, Write]"

fun gate_index :: "gate \<Rightarrow> nat" where
  "gate_index MethodCheck = 0"
| "gate_index AuthHeaderPresent = 1"
| "gate_index ParamsPresent = 2"
| "gate_index AccessControl = 3"
| "gate_index RateLimit = 4"
| "gate_index DecodePayload = 5"
| "gate_index ReadingValidate = 6"
| "gate_index RetentionClassify = 7"
| "gate_index QuotaGuard = 8"
| "gate_index Write = 9"

fun gate_of :: "event \<Rightarrow> gate" where
  "gate_of (Enter g) = g"
| "gate_of (TokenLookup org key) = AccessControl"
| "gate_of (SensorLookup org sensor) = AccessControl"
| "gate_of (LimiterAllow key) = RateLimit"
| "gate_of (CountQuery bucket sql) = QuotaGuard"
| "gate_of (PointWrite bucket p) = Write"

fun gates_of :: "event list \<Rightarrow> gate list" where
  "gates_of [] = []"
| "gates_of (Enter g # tr) = g # gates_of tr"
| "gates_of (ev # tr) = gates_of tr"

fun token_lookups :: "event list \<Rightarrow> (string \<times> string) list" where
  "token_lookups [] = []"
| "token_lookups (TokenLookup org key # tr) = (org, key) # token_lookups tr"
| "token_lookups (ev # tr) = token_lookups tr"

fun sensor_lookups :: "event list \<Rightarrow> (string \<times> string) list" where
  "sensor_lookups [] = []"
| "sensor_lookups (SensorLookup org sensor # tr) = (org, sensor) # sensor_lookups tr"
| "sensor_lookups (ev # tr) = sensor_lookups tr"

fun count_queries :: "event list \<Rightarrow> (string \<times> string) list" where
  "count_queries [] = []"
| "count_queries (CountQuery bucket sql # tr) = (bucket, sql) # count_queries tr"
| "count_queries (ev # tr) = count_queries tr"

fun point_writes :: "event list \<Rightarrow> (string \<times> Point) list" where
  "point_writes [] = []"
| "point_writes (PointWrite bucket p # tr) = (bucket, p) # point_writes tr"
| "point_writes (ev # tr) = point_writes tr"

text \<open>
  A run stops at gate \<open>g\<close> when the gates it entered are the pipeline up to \<open>g\<close>, in
  order, and no event of a later gate is in its trace.
\<close>

definition stops_at :: "gate \<Rightarrow> event list \<Rightarrow> bool" where
  "stops_at g tr \<longleftrightarrow>
     gates_of tr = take (Suc (gate_index g)) pipeline
     \<and> (\<forall>ev \<in> set tr. gate_index (gate_of ev) \<le> gate_index g)"

text \<open>
  The conditions under which a request gets past each gate, in the handler's own terms, each
  including the ones before it.
\<close>

definition passes_params :: "request \<Rightarrow> bool" where
  "passes_params r \<longleftrightarrow>
     Method r = ''POST'' \<and> HasPrefix (Authorization r) ''Bearer ''
     \<and> org_id r \<noteq> [] \<and> sensor_id r \<noteq> []"

definition passes_access :: "env \<Rightarrow> request \<Rightarrow> bool" where
  "passes_access e r \<longleftrightarrow>
     passes_params r
     \<and> fst (validateAPIKey e (org_id r) (bearer r))
     \<and> fst (validateSensorID e (org_id r) (sensor_id r))"

definition passes_rate :: "env \<Rightarrow> limiters \<Rightarrow> nat \<Rightarrow> request \<Rightarrow> bool" where
  "passes_rate e lims now r \<longleftrightarrow>
     passes_access e r \<and> fst (acquire lims now (bearer r) (sensor_id r))"

definition passes_validate ::
  "env \<Rightarrow> limiters \<Rightarrow> nat \<Rightarrow> request \<Rightarrow> SensorReading \<Rightarrow> int64 \<Rightarrow> bool" where
  "passes_validate e lims now r rd raw \<longleftrightarrow>
     passes_rate e lims now r \<and> Body r = Inr rd \<and> Timestamp rd = Some raw
     \<and> validateReading rd = None"

definition passes_classify ::
  "env \<Rightarrow> limiters \<Rightarrow> nat \<Rightarrow> request \<Rightarrow> SensorReading \<Rightarrow> int64 \<Rightarrow> string \<Rightarrow> string \<Rightarrow> bool" where
  "passes_classify e lims now r rd raw code bucket \<longleftrightarrow>
     passes_validate e lims now r rd raw
     \<and> retention_code (bearer r) = Some code \<and> retentionBuckets code = Some bucket"

definition passes_quota ::
  "env \<Rightarrow> limiters \<Rightarrow> nat \<Rightarrow> request \<Rightarrow> SensorReading \<Rightarrow> int64 \<Rightarrow> string \<Rightarrow> string \<Rightarrow> bool" where
  "passes_quota e lims now r rd raw code bucket \<longleftrightarrow>
     passes_classify e lims now r rd raw code bucket
     \<and> fst (validateCountLimit e (org_id r) code bucket) = None"

text \<open>The sensor tag and the point of a request whose body decoded to \<open>rd\<close>.\<close>

definition sensor_tag :: "request \<Rightarrow> SensorReading \<Rightarrow> string" where
  "sensor_tag r rd =
     (case SensorID rd of
        None \<Rightarrow> sensor_id r
      | Some s \<Rightarrow> (if s = [] then sensor_id r else s))"

definition request_point :: "request \<Rightarrow> SensorReading \<Rightarrow> int64 \<Rightarrow> Point" where
  "request_point r rd raw =
     make_point (org_id r) (sensor_tag r rd) (default_sensor (sensor_id r) rd)
       (normalizeTimestamp raw)"

text \<open>The trace of a run up to each gate, once the gates before it have been passed.\<close>

definition tr_access :: "request \<Rightarrow> event list" where
  "tr_access r = [Enter MethodCheck, Enter AuthHeaderPresent, Enter ParamsPresent, Enter AccessControl,
       TokenLookup (org_id r) (bearer r), SensorLookup (org_id r) (sensor_id r)]"

definition tr_rate :: "request \<Rightarrow> event list" where
  "tr_rate r = tr_access r @ [Enter RateLimit, LimiterAllow (bearer r @ '':'' @ sensor_id r)]"

definition tr_decode :: "request \<Rightarrow> event list" where
  "tr_decode r = tr_rate r @ [Enter DecodePayload]"

definition tr_validate :: "request \<Rightarrow> event list" where
  "tr_validate r = tr_decode r @ [Enter ReadingValidate]"

definition tr_classify :: "request \<Rightarrow> event list" where
  "tr_classify r = tr_validate r @ [Enter RetentionClassify]"

definition tr_quota :: "request \<Rightarrow> string \<Rightarrow> event list" where
  "tr_quota r bucket = tr_classify r @ [Enter QuotaGuard, CountQuery bucket (count_sql (org_id r))]"

definition tr_write :: "request \<Rightarrow> string \<Rightarrow> event list" where
  "tr_write r bucket = tr_quota r bucket @ [Enter Write]"

definition upload_status :: "env \<Rightarrow> limiters \<Rightarrow> nat \<Rightarrow> request \<Rightarrow> nat option" where
  "upload_status e lims now r = status_of (outcome_of (handleUpload e lims now r))"

section \<open>The organisation literal of the count query\<close>

text \<open>
  How SQL reads a string literal once its opening quote is consumed: the characters up to the
  next quote, where a doubled quote stands for one quote character. The result is the literal
  and the text that follows its closing quote. In the count query the opening quote of the
  organisation literal is character 62, so the literal starts at offset 63.
\<close>

fun sql_literal :: "string \<Rightarrow> string \<times> string" where
  "sql_literal [] = ([], [])"
| "sql_literal (c # cs) =
     (if c = CHR 0x27 then
        (case cs of
           [] \<Rightarrow> ([], [])
         | d # ds \<Rightarrow>
             (if d = CHR 0x27 then (let (lit, rest) = sql_literal ds in (CHR 0x27 # lit, rest))
              else ([], cs)))
      else (let (lit, rest) = sql_literal cs in (c # lit, rest)))"

definition org_literal :: "string \<Rightarrow> string \<times> string" where
  "org_literal sql = sql_literal (drop 63 sql)"

section \<open>Sample collaborators and requests\<close>

text \<open>
  An identity store that knows every credential and the sensor \<open>dev1\<close> of organisation
  \<open>org1\<close>, and a time-series store that counts 5 points and accepts every write.
\<close>

definition sample_env :: env where
  "sample_env =
     \<lparr>init_ok = True,
      token_get = (\<lambda>org key. org = ''org1''),
      sensor_get = (\<lambda>org sensor. org = ''org1'' \<and> sensor = ''dev1''),
      influx_query = (\<lambda>bucket sql. QueryRows [[''count'' \<mapsto> QInt64 5]] False),
      marshal_ok = (\<lambda>p. True),
      influx_write_ok = (\<lambda>bucket p. True)\<rparr>"

definition sample_reading :: SensorReading where
  "sample_reading =
     \<lparr>SensorID = None, Timestamp = Some 1700000000, Value = JNumber 21.5, Status = None\<rparr>"

definition sample_request :: request where
  "sample_request =
     \<lparr>Method = ''POST'', Path = ''/v1/upload'', Authorization = ''Bearer key-000702'',
      org_id = ''org1'', sensor_id = ''dev1'', Body = Inr sample_reading\<rparr>"

text \<open>The same collaborators with tier \<open>0007\<close> at its ceiling of 10000 points.\<close>

definition full_env :: env where
  "full_env =
     sample_env\<lparr>influx_query := (\<lambda>bucket sql. QueryRows [[''count'' \<mapsto> QInt64 10000]] False)\<rparr>"

text \<open>A registry whose bucket for the sample request is empty at time 0.\<close>

definition drained_limiters :: limiters where
  "drained_limiters =
     [''key-000702:dev1'' \<mapsto>
        \<lparr>capacity = 2, refill_rate = 2, current_tokens = 0, last_refill = 0\<rparr>]"

section \<open>Properties\<close>

subsection \<open>Timestamp normalisation\<close>

lemma sdiv_nonneg: "0 \<le> a \<Longrightarrow> 0 < b \<Longrightarrow> (a::int) sdiv b = a div b"
  by (simp add: signed_divide_int_def sgn_if)

lemma smod_nonneg: "0 \<le> a \<Longrightarrow> 0 < b \<Longrightarrow> (a::int) smod b = a mod b"
  by (simp add: signed_modulo_int_def sgn_if)

lemma time_Unix_in_range:
  "0 \<le> nsec \<Longrightarrow> nsec < 1000000000 \<Longrightarrow> time_Unix sec nsec = \<lparr>unix_sec = sec, unix_nsec = nsec\<rparr>"
  by (simp add: time_Unix_def)

lemma time_UnixMilli_nonneg:
  assumes "0 \<le> msec"
  shows "time_UnixMilli msec = \<lparr>unix_sec = msec div 1000, unix_nsec = (msec mod 1000) * 1000000\<rparr>"
proof -
  have m: "0 \<le> msec mod 1000" "msec mod 1000 < 1000"
    by simp_all
  then have "0 \<le> (msec mod 1000) * 1000000" "(msec mod 1000) * 1000000 < 1000000000"
    by simp_all
  then show ?thesis
    using assms by (simp add: time_UnixMilli_def sdiv_nonneg smod_nonneg time_Unix_in_range)
qed

text \<open>
  C1, as stated (magnitude test), fails on a timestamp at or below \<open>-10^12\<close>: its magnitude is
  at least \<open>10^12\<close>, but the signed comparison sends it down the seconds branch, so the instant
  is \<open>-10^12\<close> seconds before the epoch and not \<open>-10^12\<close> milliseconds.
\<close>

theorem C1_magnitude_counterexample:
  "1000000000000 \<le> \<bar>sint (- 1000000000000 :: int64)\<bar>
   \<and> normalizeTimestamp (- 1000000000000) = \<lparr>unix_sec = - 1000000000000, unix_nsec = 0\<rparr>
   \<and> unix_nanos (normalizeTimestamp (- 1000000000000)) \<noteq> sint (- 1000000000000 :: int64) * 1000000"
  by (simp add: normalizeTimestamp_def time_Unix_def unix_nanos_def)

text \<open>
  C1 (amended): the test is on the signed value. Every raw timestamp below \<open>10^12\<close> (negative
  ones included) is taken as whole seconds since the epoch; every raw timestamp of at least
  \<open>10^12\<close> is taken as whole milliseconds since the epoch.
\<close>

theorem C1_normalizeTimestamp:
  "(sint raw < 1000000000000 \<longrightarrow>
      normalizeTimestamp raw = \<lparr>unix_sec = sint raw, unix_nsec = 0\<rparr>
      \<and> unix_nanos (normalizeTimestamp raw) = sint raw * 1000000000)
   \<and> (1000000000000 \<le> sint raw \<longrightarrow>
      normalizeTimestamp raw =
        \<lparr>unix_sec = sint raw div 1000, unix_nsec = (sint raw mod 1000) * 1000000\<rparr>
      \<and> unix_nanos (normalizeTimestamp raw) = sint raw * 1000000)"
proof (intro conjI impI)
  assume "sint raw < 1000000000000"
  then show "normalizeTimestamp raw = \<lparr>unix_sec = sint raw, unix_nsec = 0\<rparr>"
    by (simp add: normalizeTimestamp_def time_Unix_def)
  then show "unix_nanos (normalizeTimestamp raw) = sint raw * 1000000000"
    by (simp add: unix_nanos_def)
next
  assume ms: "1000000000000 \<le> sint raw"
  then have nn: "0 \<le> sint raw"
    by simp
  from ms show eq: "normalizeTimestamp raw =
      \<lparr>unix_sec = sint raw div 1000, unix_nsec = (sint raw mod 1000) * 1000000\<rparr>"
    by (simp add: normalizeTimestamp_def time_UnixMilli_nonneg [OF nn])
  have "(sint raw div 1000) * 1000 + sint raw mod 1000 = sint raw"
    by simp
  then have "sint raw * 1000000 = (sint raw div 1000) * 1000000000 + (sint raw mod 1000) * 1000000"
    by linarith
  then show "unix_nanos (normalizeTimestamp raw) = sint raw * 1000000"
    by (simp add: eq unix_nanos_def)
qed

theorem C1_normalizeTimestamp_witness:
  "sint (1700000000 :: int64) < 1000000000000
   \<and> normalizeTimestamp 1700000000 = \<lparr>unix_sec = 1700000000, unix_nsec = 0\<rparr>
   \<and> 1000000000000 \<le> sint (1700000000123 :: int64)
   \<and> normalizeTimestamp 1700000000123 = \<lparr>unix_sec = 1700000000, unix_nsec = 123000000\<rparr>
   \<and> sint (- 1000000000000 :: int64) < 1000000000000
   \<and> unix_nanos (normalizeTimestamp (- 1000000000000)) = - 1000000000000000000000"
  using C1_normalizeTimestamp [of 1700000000] C1_normalizeTimestamp [of 1700000000123]
    C1_normalizeTimestamp [of "- 1000000000000"]
  by (simp add: unix_nanos_def)

subsection \<open>The runs of the upload handler, gate by gate\<close>

lemma validateAPIKey_cases:
  "validateAPIKey e org key = (False, []) \<and> \<not> isUploadAllowed key
   \<or> validateAPIKey e org key = (False, [TokenLookup org key]) \<and> isUploadAllowed key \<and> \<not> token_get e org key
   \<or> validateAPIKey e org key = (True, [TokenLookup org key]) \<and> isUploadAllowed key \<and> token_get e org key"
  by (simp add: validateAPIKey_def)

lemma validateAPIKey_True:
  "fst (validateAPIKey e org key) \<Longrightarrow> validateAPIKey e org key = (True, [TokenLookup org key])"
  by (simp add: validateAPIKey_def split: if_splits)

lemma validateSensorID_eq: "validateSensorID e org s = (sensor_get e org s, [SensorLookup org s])"
  by (simp add: validateSensorID_def)

lemma validateReading_default [simp]:
  "validateReading (default_sensor s rd) = validateReading rd"
  by (simp add: validateReading_def default_sensor_def)

lemma Timestamp_default [simp]: "Timestamp (default_sensor s rd) = Timestamp rd"
  by (simp add: default_sensor_def)

lemma SensorID_default: "SensorID (default_sensor (sensor_id r) rd) = Some (sensor_tag r rd)"
  by (simp add: default_sensor_def sensor_tag_def split: option.splits)

lemma run_method:
  "Method r \<noteq> ''POST'' \<Longrightarrow>
   handleUpload e lims now r =
     (Responded (http_Error ''Method Not Allowed'' 405), [Enter MethodCheck], lims)"
  by (simp add: handleUpload_def)

lemma run_auth:
  "Method r = ''POST'' \<Longrightarrow> \<not> HasPrefix (Authorization r) ''Bearer '' \<Longrightarrow>
   handleUpload e lims now r =
     (Responded (http_Error ''Unauthorized'' 401), [Enter MethodCheck, Enter AuthHeaderPresent], lims)"
  by (simp add: handleUpload_def)

lemma run_params:
  "Method r = ''POST'' \<Longrightarrow> HasPrefix (Authorization r) ''Bearer '' \<Longrightarrow> org_id r = [] \<or> sensor_id r = [] \<Longrightarrow>
   handleUpload e lims now r =
     (Responded (http_Error ''Missing org_id or sensor_id query parameter'' 400),
      [Enter MethodCheck, Enter AuthHeaderPresent, Enter ParamsPresent], lims)"
  by (auto simp add: handleUpload_def Let_def)

lemma run_key:
  "passes_params r \<Longrightarrow> \<not> fst (validateAPIKey e (org_id r) (bearer r)) \<Longrightarrow>
   handleUpload e lims now r =
     (Responded (http_Error ''Unauthorized'' 401),
      [Enter MethodCheck, Enter AuthHeaderPresent, Enter ParamsPresent, Enter AccessControl]
        @ snd (validateAPIKey e (org_id r) (bearer r)), lims)"
  by (simp add: handleUpload_def Let_def passes_params_def bearer_def case_prod_beta)

lemma run_sensor:
  "passes_params r \<Longrightarrow> fst (validateAPIKey e (org_id r) (bearer r)) \<Longrightarrow>
   \<not> fst (validateSensorID e (org_id r) (sensor_id r)) \<Longrightarrow>
   handleUpload e lims now r =
     (Responded (http_Error ''Unauthorized'' 401),
      [Enter MethodCheck, Enter AuthHeaderPresent, Enter ParamsPresent, Enter AccessControl,
       TokenLookup (org_id r) (bearer r), SensorLookup (org_id r) (sensor_id r)], lims)"
  by (simp add: handleUpload_def Let_def passes_params_def bearer_def validateSensorID_eq
      validateAPIKey_True case_prod_beta)

lemma getRateLimiter_fst: "fst (getRateLimiter lims k s) = k @ '':'' @ s"
  by (simp add: getRateLimiter_def Let_def split: option.splits)

lemma run_rate:
  "passes_access e r \<Longrightarrow> \<not> fst (acquire lims now (bearer r) (sensor_id r)) \<Longrightarrow>
   handleUpload e lims now r =
     (Responded (http_Error ''Rate limit exceeded'' 429), tr_rate r,
      snd (acquire lims now (bearer r) (sensor_id r)))"
  using getRateLimiter_fst [of lims "bearer r" "sensor_id r"]
  by (simp add: handleUpload_def Let_def passes_access_def passes_params_def bearer_def validateSensorID_eq
      acquire_def tr_rate_def tr_access_def validateAPIKey_True case_prod_beta)

lemmas tr_defs = tr_write_def tr_quota_def tr_classify_def tr_validate_def tr_decode_def tr_rate_def tr_access_def

lemma run_past_rate:
  "passes_rate e lims now r \<Longrightarrow>
   handleUpload e lims now r =
    (let lims2 = snd (acquire lims now (bearer r) (sensor_id r)) in
     case Body r of
       Inl err \<Rightarrow> (Responded (http_Error (''Bad Request: '' @ err) 400), tr_decode r, lims2)
     | Inr reading0 \<Rightarrow>
     let reading = default_sensor (sensor_id r) reading0 in
     case Timestamp reading of
       None \<Rightarrow> (Responded (http_Error ''Missing timestamp'' 400), tr_validate r, lims2)
     | Some raw \<Rightarrow>
     let ts = normalizeTimestamp raw in
     case validateReading reading of
       Some err \<Rightarrow> (Responded (http_Error (''Bad Reading: '' @ err) 400), tr_validate r, lims2)
     | None \<Rightarrow>
     case retention_code (bearer r) of
       None \<Rightarrow> (Panicked, tr_classify r, lims2)
     | Some retentionCode \<Rightarrow>
     let bucket = (case retentionBuckets retentionCode of Some b \<Rightarrow> b | None \<Rightarrow> []) in
     if bucket = [] then
       (Responded (http_Error ''Unknown retention level'' 400), tr_classify r, lims2)
     else
     let (rejected, trQ) = validateCountLimit e (org_id r) retentionCode bucket;
         tr9 = tr_classify r @ [Enter QuotaGuard] @ trQ in
     case rejected of
       Some resp \<Rightarrow> (Responded resp, tr9, lims2)
     | None \<Rightarrow>
     let tr10 = tr9 @ [Enter Write] in
     case SensorID reading of
       None \<Rightarrow> (Panicked, tr10, lims2)
     | Some sensorTag \<Rightarrow>
     let point = make_point (org_id r) sensorTag reading ts in
     if \<not> marshal_ok e point then
       (Responded (http_Error ''Failed to process data'' 500), tr10, lims2)
     else
     if \<not> influx_write_ok e bucket point then
       (Responded (http_Error ''Failed to write data'' 500), tr10 @ [PointWrite bucket point], lims2)
     else
       (Responded accepted, tr10 @ [PointWrite bucket point], lims2))"
  using getRateLimiter_fst [of lims "bearer r" "sensor_id r"]
  by (simp add: handleUpload_def Let_def passes_rate_def passes_access_def passes_params_def bearer_def validateSensorID_eq
      acquire_def tr_defs validateAPIKey_True case_prod_beta split: sum.split option.split)

lemma run_decode:
  "passes_rate e lims now r \<Longrightarrow> Body r = Inl err \<Longrightarrow>
   handleUpload e lims now r =
     (Responded (http_Error (''Bad Request: '' @ err) 400), tr_decode r,
      snd (acquire lims now (bearer r) (sensor_id r)))"
  by (simp add: run_past_rate)

lemma run_timestamp:
  "passes_rate e lims now r \<Longrightarrow> Body r = Inr rd \<Longrightarrow> Timestamp rd = None \<Longrightarrow>
   handleUpload e lims now r =
     (Responded (http_Error ''Missing timestamp'' 400), tr_validate r,
      snd (acquire lims now (bearer r) (sensor_id r)))"
  by (simp add: run_past_rate)

lemma run_reading:
  "passes_rate e lims now r \<Longrightarrow> Body r = Inr rd \<Longrightarrow> Timestamp rd = Some raw \<Longrightarrow>
   validateReading rd = Some err \<Longrightarrow>
   handleUpload e lims now r =
     (Responded (http_Error (''Bad Reading: '' @ err) 400), tr_validate r,
      snd (acquire lims now (bearer r) (sensor_id r)))"
  by (simp add: run_past_rate)

lemma run_panic:
  "passes_validate e lims now r rd raw \<Longrightarrow> retention_code (bearer r) = None \<Longrightarrow>
   handleUpload e lims now r =
     (Panicked, tr_classify r, snd (acquire lims now (bearer r) (sensor_id r)))"
  by (simp add: run_past_rate passes_validate_def)

lemma run_retention:
  "passes_validate e lims now r rd raw \<Longrightarrow> retention_code (bearer r) = Some code \<Longrightarrow>
   retentionBuckets code = None \<Longrightarrow>
   handleUpload e lims now r =
     (Responded (http_Error ''Unknown retention level'' 400), tr_classify r,
      snd (acquire lims now (bearer r) (sensor_id r)))"
  by (simp add: run_past_rate passes_validate_def)

lemma retentionBuckets_Some:
  "retentionBuckets code = Some bucket \<Longrightarrow> bucket \<noteq> [] \<and> (\<exists>maxPoints. quotaMap code = Some maxPoints)"
  by (auto simp add: retentionBuckets_def quotaMap_def split: if_splits)

lemma validateCountLimit_snd:
  "quotaMap code = Some maxPoints \<Longrightarrow>
   snd (validateCountLimit e org code bucket) = [CountQuery bucket (count_sql org)]"
  by (simp add: validateCountLimit_def Let_def split: query_result.splits)

lemma run_quota:
  "passes_classify e lims now r rd raw code bucket \<Longrightarrow>
   fst (validateCountLimit e (org_id r) code bucket) = Some resp \<Longrightarrow>
   handleUpload e lims now r =
     (Responded resp, tr_quota r bucket, snd (acquire lims now (bearer r) (sensor_id r)))"
  using retentionBuckets_Some [of code bucket]
  by (auto simp add: run_past_rate passes_validate_def passes_classify_def case_prod_beta
      validateCountLimit_snd tr_quota_def)

lemma run_write:
  "passes_quota e lims now r rd raw code bucket \<Longrightarrow>
   handleUpload e lims now r =
     (if \<not> marshal_ok e (request_point r rd raw) then
        (Responded (http_Error ''Failed to process data'' 500), tr_write r bucket,
         snd (acquire lims now (bearer r) (sensor_id r)))
      else if \<not> influx_write_ok e bucket (request_point r rd raw) then
        (Responded (http_Error ''Failed to write data'' 500),
         tr_write r bucket @ [PointWrite bucket (request_point r rd raw)],
         snd (acquire lims now (bearer r) (sensor_id r)))
      else
        (Responded accepted, tr_write r bucket @ [PointWrite bucket (request_point r rd raw)],
         snd (acquire lims now (bearer r) (sensor_id r))))"
  using retentionBuckets_Some [of code bucket]
  by (auto simp add: run_past_rate passes_validate_def passes_classify_def passes_quota_def case_prod_beta
      validateCountLimit_snd tr_quota_def tr_write_def SensorID_default request_point_def Let_def)


lemma handleUpload_cases:
  obtains
    (wrong_method) "Method r \<noteq> ''POST''"
  | (auth) "Method r = ''POST''" "\<not> HasPrefix (Authorization r) ''Bearer ''"
  | (params) "Method r = ''POST''" "HasPrefix (Authorization r) ''Bearer ''"
      "org_id r = [] \<or> sensor_id r = []"
  | (key) "passes_params r" "\<not> fst (validateAPIKey e (org_id r) (bearer r))"
  | (sensor) "passes_params r" "fst (validateAPIKey e (org_id r) (bearer r))"
      "\<not> fst (validateSensorID e (org_id r) (sensor_id r))"
  | (rate) "passes_access e r" "\<not> fst (acquire lims now (bearer r) (sensor_id r))"
  | (decode) err where "passes_rate e lims now r" "Body r = Inl err"
  | (timestamp) rd where "passes_rate e lims now r" "Body r = Inr rd" "Timestamp rd = None"
  | (reading) rd raw err where "passes_rate e lims now r" "Body r = Inr rd"
      "Timestamp rd = Some raw" "validateReading rd = Some err"
  | (panic) rd raw where "passes_validate e lims now r rd raw" "retention_code (bearer r) = None"
  | (retention) rd raw code where "passes_validate e lims now r rd raw"
      "retention_code (bearer r) = Some code" "retentionBuckets code = None"
  | (quota) rd raw code bucket resp where "passes_classify e lims now r rd raw code bucket"
      "fst (validateCountLimit e (org_id r) code bucket) = Some resp"
  | (admit) rd raw code bucket where "passes_quota e lims now r rd raw code bucket"
proof -
  consider "Method r \<noteq> ''POST''"
    | "Method r = ''POST''" "\<not> HasPrefix (Authorization r) ''Bearer ''"
    | "Method r = ''POST''" "HasPrefix (Authorization r) ''Bearer ''" "org_id r = [] \<or> sensor_id r = []"
    | "passes_params r"
    by (auto simp add: passes_params_def)
  then show thesis
  proof cases
    case 1 then show ?thesis by (rule wrong_method)
  next
    case 2 then show ?thesis by (rule auth)
  next
    case 3 then show ?thesis by (rule params)
  next
    case 4
    consider "\<not> fst (validateAPIKey e (org_id r) (bearer r))"
      | "fst (validateAPIKey e (org_id r) (bearer r))" "\<not> fst (validateSensorID e (org_id r) (sensor_id r))"
      | "passes_access e r" "\<not> fst (acquire lims now (bearer r) (sensor_id r))"
      | "passes_rate e lims now r"
      using 4 by (auto simp add: passes_access_def passes_rate_def)
    then show ?thesis
    proof cases
      case 1 with 4 show ?thesis by (rule key)
    next
      case 2 with 4 show ?thesis by (rule sensor)
    next
      case 3 then show ?thesis by (rule rate)
    next
      case pr: 4
      show ?thesis
      proof (cases "Body r")
        case (Inl err) with pr show ?thesis by (rule decode)
      next
        case (Inr rd)
        show ?thesis
        proof (cases "Timestamp rd")
          case None with pr Inr show ?thesis by (rule timestamp)
        next
          case (Some raw)
          show ?thesis
          proof (cases "validateReading rd")
            case (Some err) with pr Inr \<open>Timestamp rd = Some raw\<close> show ?thesis by (rule reading)
          next
            case None
            with pr Inr Some have pv: "passes_validate e lims now r rd raw"
              by (simp add: passes_validate_def)
            show ?thesis
            proof (cases "retention_code (bearer r)")
              case None with pv show ?thesis by (rule panic)
            next
              case (Some code)
              note code = this
              show ?thesis
              proof (cases "retentionBuckets code")
                case None with pv code show ?thesis by (rule retention)
              next
                case (Some bucket)
                with pv code have pc: "passes_classify e lims now r rd raw code bucket"
                  by (simp add: passes_classify_def)
                show ?thesis
                proof (cases "fst (validateCountLimit e (org_id r) code bucket)")
                  case None
                  with pc have "passes_quota e lims now r rd raw code bucket"
                    by (simp add: passes_quota_def)
                  then show ?thesis by (rule admit)
                next
                  case (Some resp) with pc show ?thesis by (rule quota)
                qed
              qed
            qed
          qed
        qed
      qed
    qed
  qed
qed




subsection \<open>Facts about the gates\<close>

lemma passes_rate_access: "passes_rate e lims now r \<Longrightarrow> passes_access e r"
  by (simp add: passes_rate_def)

lemma passes_validate_rate: "passes_validate e lims now r rd raw \<Longrightarrow> passes_rate e lims now r"
  by (simp add: passes_validate_def)

lemma passes_classify_validate:
  "passes_classify e lims now r rd raw code bucket \<Longrightarrow> passes_validate e lims now r rd raw"
  by (simp add: passes_classify_def)

lemma passes_quota_classify:
  "passes_quota e lims now r rd raw code bucket \<Longrightarrow> passes_classify e lims now r rd raw code bucket"
  by (simp add: passes_quota_def)

lemma passes_access_allowed: "passes_access e r \<Longrightarrow> isUploadAllowed (bearer r)"
  by (auto simp add: passes_access_def validateAPIKey_def split: if_splits)

lemma isUploadAllowed_length: "isUploadAllowed apiKey \<Longrightarrow> 2 \<le> length apiKey"
  by (simp add: isUploadAllowed_def split: if_splits)

lemma passes_quota_allowed:
  "passes_quota e lims now r rd raw code bucket \<Longrightarrow> isUploadAllowed (bearer r)"
  by (auto simp add: passes_quota_def passes_classify_def passes_validate_def passes_rate_def
      dest: passes_access_allowed)

lemma status_http_Error [simp]: "status (http_Error msg code) = code"
  by (simp add: http_Error_def)

lemma status_accepted [simp]: "status accepted = 202"
  by (simp add: accepted_def)

lemma validateCountLimit_status:
  "fst (validateCountLimit e org code bucket) = Some resp \<Longrightarrow>
   status resp = 400 \<or> status resp = 500 \<or> status resp = 402"
  by (auto simp add: validateCountLimit_def Let_def split: option.splits query_result.splits if_splits)

lemma token_lookups_append [simp]: "token_lookups (xs @ ys) = token_lookups xs @ token_lookups ys"
  by (induction xs rule: token_lookups.induct) simp_all

lemma sensor_lookups_append [simp]: "sensor_lookups (xs @ ys) = sensor_lookups xs @ sensor_lookups ys"
  by (induction xs rule: sensor_lookups.induct) simp_all

lemma count_queries_append [simp]: "count_queries (xs @ ys) = count_queries xs @ count_queries ys"
  by (induction xs rule: count_queries.induct) simp_all

lemma point_writes_append [simp]: "point_writes (xs @ ys) = point_writes xs @ point_writes ys"
  by (induction xs rule: point_writes.induct) simp_all

lemma gates_of_append [simp]: "gates_of (xs @ ys) = gates_of xs @ gates_of ys"
  by (induction xs rule: gates_of.induct) simp_all

lemmas run_simps = outcome_of_def trace_of_def registry_of_def upload_status_def

text \<open>The definitions that evaluate a run on a given request.\<close>

lemmas sample_defs = sample_env_def sample_request_def sample_reading_def

lemmas eval_defs = HasPrefix_def TrimPrefix_def bearer_def validateAPIKey_def
  validateSensorID_def isUploadAllowed_def getRateLimiter_def limiter_Allow_def Allow_def advance_def
  NewLimiter_def acquire_def validateReading_def go_slice_def retention_code_def retentionBuckets_def
  quotaMap_def passes_params_def passes_access_def passes_rate_def passes_validate_def
  passes_classify_def passes_quota_def

subsection \<open>Access control and credential length\<close>

text \<open>
  C2, as stated, fails: the credential \<open>02\<close> has 2 characters, fewer than the 6 of the
  encoded fields, yet \<open>isUploadAllowed\<close> lets it through (its only length test is
  \<open>len(apiKey) < 2\<close>), the identity store is asked for it, and access control grants it
  when the store has it.
\<close>

theorem C2_short_credential_counterexample:
  "length ''02'' < (6::nat)
   \<and> validateAPIKey sample_env ''org1'' ''02'' = (True, [TokenLookup ''org1'' ''02''])"
  by (simp add: validateAPIKey_def isUploadAllowed_def sample_env_def)

text \<open>
  C2 (amended): the length below which access control denies without a lookup is 2, the
  width of the access-level suffix. A credential shorter than 2 characters is denied by
  \<open>validateAPIKey\<close> with no lookup, and a request carrying it is never accepted: no identity
  store lookup is issued and nothing is written.
\<close>

theorem C2_too_short_denied:
  "(length apiKey < 2 \<longrightarrow> validateAPIKey e orgID apiKey = (False, []))
   \<and> (length (bearer r) < 2 \<longrightarrow>
        outcome_of (handleUpload e lims now r) \<noteq> Responded accepted
        \<and> token_lookups (trace_of (handleUpload e lims now r)) = []
        \<and> sensor_lookups (trace_of (handleUpload e lims now r)) = []
        \<and> point_writes (trace_of (handleUpload e lims now r)) = [])"
proof (intro conjI impI)
  assume "length apiKey < 2"
  then show "validateAPIKey e orgID apiKey = (False, [])"
    by (simp add: validateAPIKey_def isUploadAllowed_def)
next
  assume short: "length (bearer r) < 2"
  then have na: "\<not> isUploadAllowed (bearer r)"
    using isUploadAllowed_length [of "bearer r"] by auto
  then have nk: "validateAPIKey e (org_id r) (bearer r) = (False, [])"
    by (simp add: validateAPIKey_def)
  have npa: "\<not> passes_access e r"
    using na passes_access_allowed by blast
  have "outcome_of (handleUpload e lims now r) \<noteq> Responded accepted
        \<and> token_lookups (trace_of (handleUpload e lims now r)) = []
        \<and> sensor_lookups (trace_of (handleUpload e lims now r)) = []
        \<and> point_writes (trace_of (handleUpload e lims now r)) = []"
  proof (cases rule: handleUpload_cases [where r = r and e = e and lims = lims and now = now])
    case wrong_method
    then show ?thesis by (simp add: run_method run_simps http_Error_def accepted_def)
  next
    case auth
    then show ?thesis by (simp add: run_auth run_simps http_Error_def accepted_def)
  next
    case params
    then show ?thesis by (simp add: run_params run_simps http_Error_def accepted_def)
  next
    case key
    then show ?thesis by (simp add: run_key run_simps nk http_Error_def accepted_def)
  next
    case sensor
    then show ?thesis by (simp add: nk)
  next
    case rate
    then show ?thesis using npa by simp
  next
    case decode
    then show ?thesis using npa passes_rate_access by blast
  next
    case timestamp
    then show ?thesis using npa passes_rate_access by blast
  next
    case reading
    then show ?thesis using npa passes_rate_access by blast
  next
    case panic
    then show ?thesis using npa passes_rate_access passes_validate_rate by blast
  next
    case retention
    then show ?thesis using npa passes_rate_access passes_validate_rate by blast
  next
    case quota
    then show ?thesis
      using npa passes_rate_access passes_validate_rate passes_classify_validate by blast
  next
    case admit
    then show ?thesis using na passes_quota_allowed by blast
  qed
  then show "outcome_of (handleUpload e lims now r) \<noteq> Responded accepted"
    and "token_lookups (trace_of (handleUpload e lims now r)) = []"
    and "sensor_lookups (trace_of (handleUpload e lims now r)) = []"
    and "point_writes (trace_of (handleUpload e lims now r)) = []"
    by simp_all
qed

text \<open>
  C2 (amended) at the one-character credential \<open>2\<close>.
\<close>

theorem C2_too_short_denied_witness:
  "length ''2'' < (2::nat)
   \<and> validateAPIKey sample_env ''org1'' ''2'' = (False, [])
   \<and> length (bearer (sample_request\<lparr>Authorization := ''Bearer 2''\<rparr>)) < 2
   \<and> outcome_of (handleUpload sample_env Map.empty 0 (sample_request\<lparr>Authorization := ''Bearer 2''\<rparr>))
       \<noteq> Responded accepted
   \<and> token_lookups (trace_of (handleUpload sample_env Map.empty 0
        (sample_request\<lparr>Authorization := ''Bearer 2''\<rparr>))) = []"
  using C2_too_short_denied [of "''2''" sample_env "''org1''"
      "sample_request\<lparr>Authorization := ''Bearer 2''\<rparr>" Map.empty 0]
  by (simp add: bearer_def TrimPrefix_def HasPrefix_def sample_request_def)

text \<open>
  C3: the retention-code slice \<open>apiKey[len(apiKey)-6 : len(apiKey)-2]\<close> is defined exactly
  when the credential has at least 6 characters; a request that gets past reading validation
  with a shorter credential makes the handler panic; and there is such a request, with a
  credential of 2 to 5 characters, an allowed access level and both existence checks passed,
  so no earlier gate establishes the precondition.
\<close>

theorem C3_short_credential_panics:
  "(retention_code apiKey = None) = (length apiKey < 6)
   \<and> (passes_validate e lims now r rd raw \<and> length (bearer r) < 6 \<longrightarrow>
        outcome_of (handleUpload e lims now r) = Panicked)
   \<and> (\<exists>e lims now r rd raw.
        passes_validate e lims now r rd raw
        \<and> 2 \<le> length (bearer r) \<and> length (bearer r) \<le> 5
        \<and> isUploadAllowed (bearer r)
        \<and> fst (validateAPIKey e (org_id r) (bearer r))
        \<and> fst (validateSensorID e (org_id r) (sensor_id r))
        \<and> outcome_of (handleUpload e lims now r) = Panicked)"
proof (intro conjI impI)
  show total: "\<And>k. (retention_code k = None) = (length k < 6)"
    by (auto simp add: retention_code_def go_slice_def)
  show "outcome_of (handleUpload e lims now r) = Panicked"
    if "passes_validate e lims now r rd raw \<and> length (bearer r) < 6"
  proof -
    from that have "passes_validate e lims now r rd raw" "retention_code (bearer r) = None"
      using total [of "bearer r"] by simp_all
    then show ?thesis
      by (simp add: run_panic outcome_of_def)
  qed
  let ?r = "sample_request\<lparr>Authorization := ''Bearer 02''\<rparr>"
  have pv: "passes_validate sample_env Map.empty 0 ?r sample_reading 1700000000"
    by (simp add: eval_defs Let_def sample_defs)
  have b: "bearer ?r = ''02''"
    by (simp add: eval_defs sample_defs)
  have "retention_code (bearer ?r) = None"
    using b total [of "''02''"] by simp
  with pv have "outcome_of (handleUpload sample_env Map.empty 0 ?r) = Panicked"
    by (simp add: run_panic outcome_of_def)
  moreover have "isUploadAllowed (bearer ?r)"
    "fst (validateAPIKey sample_env (org_id ?r) (bearer ?r))"
    "fst (validateSensorID sample_env (org_id ?r) (sensor_id ?r))"
    by (simp_all add: eval_defs sample_defs)
  ultimately show "\<exists>e lims now r rd raw.
        passes_validate e lims now r rd raw
        \<and> 2 \<le> length (bearer r) \<and> length (bearer r) \<le> 5
        \<and> isUploadAllowed (bearer r)
        \<and> fst (validateAPIKey e (org_id r) (bearer r))
        \<and> fst (validateSensorID e (org_id r) (sensor_id r))
        \<and> outcome_of (handleUpload e lims now r) = Panicked"
    using pv b by (intro exI [of _ sample_env] exI [of _ Map.empty] exI [of _ 0] exI [of _ ?r]
        exI [of _ sample_reading] exI [of _ 1700000000]) simp
qed

text \<open>
  C3 at the three-character credential \<open>x02\<close>.
\<close>

theorem C3_short_credential_panics_witness:
  "passes_validate sample_env Map.empty 0 (sample_request\<lparr>Authorization := ''Bearer x02''\<rparr>)
      sample_reading 1700000000
   \<and> length (bearer (sample_request\<lparr>Authorization := ''Bearer x02''\<rparr>)) < 6
   \<and> outcome_of (handleUpload sample_env Map.empty 0
        (sample_request\<lparr>Authorization := ''Bearer x02''\<rparr>)) = Panicked
   \<and> retention_code ''x02'' = None"
proof -
  let ?r = "sample_request\<lparr>Authorization := ''Bearer x02''\<rparr>"
  have pv: "passes_validate sample_env Map.empty 0 ?r sample_reading 1700000000"
    by (simp add: eval_defs Let_def sample_defs)
  have b: "bearer ?r = ''x02''"
    by (simp add: eval_defs sample_defs)
  note inst = C3_short_credential_panics [of "''x02''" sample_env Map.empty 0 ?r
      sample_reading 1700000000]
  from inst have "retention_code ''x02'' = None"
    by simp
  moreover from inst pv b have "outcome_of (handleUpload sample_env Map.empty 0 ?r) = Panicked"
    by simp
  ultimately show ?thesis
    using pv b by simp
qed




subsection \<open>The quota guard\<close>

lemma validateCountLimit_rows:
  "quotaMap code = Some maxPoints \<Longrightarrow>
   influx_query e bucket (count_sql orgID) = QueryRows rows False \<Longrightarrow>
   fst (validateCountLimit e orgID code bucket) =
     (if sint maxPoints \<le> sint (read_count 0 rows) then Some (http_Error ''Quota exceeded'' 402)
      else None)"
  by (simp add: validateCountLimit_def Let_def)

lemma validateCountLimit_failed:
  "quotaMap code = Some maxPoints \<Longrightarrow>
   influx_query e bucket (count_sql orgID) = QueryError
     \<or> influx_query e bucket (count_sql orgID) = QueryRows rows True \<Longrightarrow>
   fst (validateCountLimit e orgID code bucket) = Some (http_Error ''Internal Server Error'' 500)"
  by (auto simp add: validateCountLimit_def Let_def)

text \<open>
  C5: with the tier's ceiling \<open>maxPoints\<close>, when the query and the iteration succeed the guard
  answers 402 (quota exceeded) exactly when the count read from the rows is at least the
  ceiling, and lets the request through exactly when it is below; when the query or the
  iteration fails the guard answers 500. Whatever the guard answers is the handler's response,
  and no point is written. The count read from a single row is that row's \<open>count\<close>.
\<close>

theorem C5_quota_guard:
  "quotaMap code = Some maxPoints \<Longrightarrow>
   (influx_query e bucket (count_sql orgID) = QueryRows rows False \<longrightarrow>
      ((fst (validateCountLimit e orgID code bucket) = Some (http_Error ''Quota exceeded'' 402))
         = (sint maxPoints \<le> sint (read_count 0 rows)))
      \<and> ((fst (validateCountLimit e orgID code bucket) = None)
         = (sint (read_count 0 rows) < sint maxPoints)))
   \<and> (influx_query e bucket (count_sql orgID) = QueryError
        \<or> influx_query e bucket (count_sql orgID) = QueryRows rows True \<longrightarrow>
      fst (validateCountLimit e orgID code bucket) = Some (http_Error ''Internal Server Error'' 500))
   \<and> (passes_classify e lims now r rd raw code bucket
        \<and> fst (validateCountLimit e (org_id r) code bucket) = Some resp \<longrightarrow>
      outcome_of (handleUpload e lims now r) = Responded resp
      \<and> point_writes (trace_of (handleUpload e lims now r)) = [])
   \<and> read_count 0 [[''count'' \<mapsto> QInt64 n]] = n"
proof (intro conjI impI)
  assume q: "quotaMap code = Some maxPoints"
  {
    assume rows: "influx_query e bucket (count_sql orgID) = QueryRows rows False"
    show "(fst (validateCountLimit e orgID code bucket) = Some (http_Error ''Quota exceeded'' 402))
         = (sint maxPoints \<le> sint (read_count 0 rows))"
      by (simp add: validateCountLimit_rows [OF q rows])
    show "(fst (validateCountLimit e orgID code bucket) = None)
         = (sint (read_count 0 rows) < sint maxPoints)"
      by (auto simp add: validateCountLimit_rows [OF q rows])
  }
  show "fst (validateCountLimit e orgID code bucket) = Some (http_Error ''Internal Server Error'' 500)"
    if "influx_query e bucket (count_sql orgID) = QueryError
        \<or> influx_query e bucket (count_sql orgID) = QueryRows rows True"
    using that by (rule validateCountLimit_failed [OF q])
  {
    assume "passes_classify e lims now r rd raw code bucket
        \<and> fst (validateCountLimit e (org_id r) code bucket) = Some resp"
    then have run: "handleUpload e lims now r =
        (Responded resp, tr_quota r bucket, snd (acquire lims now (bearer r) (sensor_id r)))"
      by (blast intro: run_quota)
    show "outcome_of (handleUpload e lims now r) = Responded resp"
      by (simp add: run outcome_of_def)
    show "point_writes (trace_of (handleUpload e lims now r)) = []"
      by (simp add: run trace_of_def tr_defs)
  }
  show "read_count 0 [[''count'' \<mapsto> QInt64 n]] = n"
    by simp
qed

text \<open>
  C5 on tier \<open>0007\<close> (ceiling 10000): a count of 5 is let through, a count of 10000 is
  answered with 402 by the guard and by the handler.
\<close>

theorem C5_quota_guard_witness:
  "quotaMap ''0007'' = Some 10000
   \<and> influx_query sample_env ''retention_7d'' (count_sql ''org1'') = QueryRows [[''count'' \<mapsto> QInt64 5]] False
   \<and> fst (validateCountLimit sample_env ''org1'' ''0007'' ''retention_7d'') = None
   \<and> fst (validateCountLimit full_env ''org1'' ''0007'' ''retention_7d'')
       = Some (http_Error ''Quota exceeded'' 402)
   \<and> outcome_of (handleUpload full_env Map.empty 0 sample_request)
       = Responded (http_Error ''Quota exceeded'' 402)"
proof -
  have q: "quotaMap ''0007'' = Some 10000"
    by (simp add: quotaMap_def)
  have rows: "influx_query sample_env ''retention_7d'' (count_sql ''org1'')
      = QueryRows [[''count'' \<mapsto> QInt64 5]] False"
    by (simp add: sample_env_def)
  have rows10: "influx_query full_env ''retention_7d'' (count_sql ''org1'')
      = QueryRows [[''count'' \<mapsto> QInt64 10000]] False"
    by (simp add: full_env_def sample_env_def)
  have pc: "passes_classify full_env Map.empty 0 sample_request sample_reading 1700000000
      ''0007'' ''retention_7d''"
    by (simp add: eval_defs Let_def sample_defs full_env_def)
  have o: "org_id sample_request = ''org1''"
    by (simp add: sample_defs)
  have below: "fst (validateCountLimit sample_env ''org1'' ''0007'' ''retention_7d'') = None"
    using C5_quota_guard [OF q, of sample_env "''retention_7d''" "''org1''"
        "[[''count'' \<mapsto> QInt64 5]]"] rows
    by simp
  have full: "fst (validateCountLimit full_env ''org1'' ''0007'' ''retention_7d'')
       = Some (http_Error ''Quota exceeded'' 402)"
    using C5_quota_guard [OF q, of full_env "''retention_7d''" "''org1''"
        "[[''count'' \<mapsto> QInt64 10000]]"] rows10
    by simp
  have "outcome_of (handleUpload full_env Map.empty 0 sample_request)
       = Responded (http_Error ''Quota exceeded'' 402)"
    using C5_quota_guard [OF q, of full_env "''retention_7d''" "''org1''"
        "[[''count'' \<mapsto> QInt64 10000]]" Map.empty 0 sample_request sample_reading 1700000000
        "http_Error ''Quota exceeded'' 402"] pc full o
    by simp
  with q rows below full show ?thesis
    by simp
qed




subsection \<open>The text of the count query\<close>

lemma sql_literal_clean:
  "CHR 0x27 \<notin> set org \<Longrightarrow> rest \<noteq> [] \<Longrightarrow> hd rest \<noteq> CHR 0x27 \<Longrightarrow>
   sql_literal (org @ CHR 0x27 # rest) = (org, rest)"
  by (induction org) (auto split: list.splits)

lemma drop_count_sql: "drop 63 (count_sql orgID) = orgID @ [CHR 0x27, CHR 0x0A, CHR 0x09]"
  by (simp add: count_sql_def)

text \<open>
  For an organisation identifier with no quote in it the query compares the tag with the
  identifier itself.
\<close>

lemma org_literal_clean:
  "CHR 0x27 \<notin> set orgID \<Longrightarrow> org_literal (count_sql orgID) = (orgID, [CHR 0x0A, CHR 0x09])"
  using sql_literal_clean [of orgID "[CHR 0x0A, CHR 0x09]"]
  by (simp add: org_literal_def drop_count_sql)

text \<open>
  C6 fails on the code: \<open>orgID\<close> is put between the quotes as it is. For the organisation
  identifier \<open>x' OR '1'='1\<close> the literal compared with the tag is \<open>x\<close>, not the
  identifier, and the rest of the identifier is read as query text: \<open>OR '1'='1'\<close>.
\<close>

theorem C6_org_id_breaks_out:
  \<open>count_sql ''x' OR '1'='1'' =
     [CHR 0x0A, CHR 0x09, CHR 0x09]
     @ ''SELECT COUNT(*) AS count FROM sensor_reading WHERE "org" = 'x' OR '1'='1''
     @ [CHR 0x27, CHR 0x0A, CHR 0x09]
   \<and> org_literal (count_sql ''x' OR '1'='1'') = (''x'', '' OR '1'='1'' @ [CHR 0x27, CHR 0x0A, CHR 0x09])
   \<and> fst (org_literal (count_sql ''x' OR '1'='1'')) \<noteq> ''x' OR '1'='1''\<close>
  by (simp add: count_sql_def org_literal_def)

subsection \<open>Routing and the health endpoint\<close>

lemma mux_main_health: "mux_match main_routes ''/health'' = Some (''/'', plain_handler RootHandler)"
  by (simp add: main_routes_def pattern_matches_def HasPrefix_def)

lemma mux_part_000_health:
  "mux_match (part_000_routes h) ''/health'' = Some (''/health'', plain_handler healthHandler)"
  by (simp add: part_000_routes_def pattern_matches_def HasPrefix_def)

text \<open>
  C9, as stated, fails for the entry point of src/main.go: it registers no \<open>/health\<close>
  pattern, so a GET of \<open>/health\<close> falls to the subtree pattern \<open>/\<close> and is answered by
  \<open>RootHandler\<close>, with status 200 but the root document as body.
\<close>

theorem C9_main_health_counterexample:
  \<open>outcome_of (main_server sample_env Map.empty 0
       (sample_request\<lparr>Method := ''GET'', Path := ''/health''\<rparr>))
     = Responded \<lparr>status = 200, content_type = ''application/json'',
         body = ''{"name": "Salkaro API", "version": "1.0.1", "status": "active"}''\<rparr>
   \<and> outcome_of (main_server sample_env Map.empty 0
       (sample_request\<lparr>Method := ''GET'', Path := ''/health''\<rparr>))
     \<noteq> Responded \<lparr>status = 200, content_type = ''application/json'',
         body = ''{"status":"healthy"}''\<rparr>\<close>
  by (simp add: main_server_def ServeMux_def mux_main_health plain_handler_def RootHandler_def
      outcome_of_def sample_request_def)

text \<open>
  C9 (amended): every request for \<open>/health\<close> is answered with status 200. Under the entry
  point of src/unnamed/part_000, which registers \<open>/health\<close>, the body is exactly
  \<open>{"status":"healthy"}\<close>; under the entry point of src/main.go the request is served by
  \<open>RootHandler\<close> and the body is the root document. Neither touches a collaborator or the
  limiter registry.
\<close>

theorem C9_health:
  \<open>Path r = ''/health'' \<Longrightarrow>
   part_000_server api_Handler e lims now r =
     (Responded \<lparr>status = 200, content_type = ''application/json'',
        body = ''{"status":"healthy"}''\<rparr>, [], lims)
   \<and> main_server e lims now r =
     (Responded \<lparr>status = 200, content_type = ''application/json'',
        body = ''{"name": "Salkaro API", "version": "1.0.1", "status": "active"}''\<rparr>, [], lims)\<close>
  by (simp add: main_server_def part_000_server_def ServeMux_def mux_main_health
      mux_part_000_health plain_handler_def RootHandler_def healthHandler_def)

theorem C9_health_witness:
  \<open>Path (sample_request\<lparr>Method := ''GET'', Path := ''/health''\<rparr>) = ''/health''
   \<and> part_000_server UploadHandler sample_env Map.empty 0
        (sample_request\<lparr>Method := ''GET'', Path := ''/health''\<rparr>) =
     (Responded \<lparr>status = 200, content_type = ''application/json'',
        body = ''{"status":"healthy"}''\<rparr>, [], Map.empty)\<close>
  using C9_health [of "sample_request\<lparr>Method := ''GET'', Path := ''/health''\<rparr>"
      UploadHandler sample_env Map.empty 0]
  by (simp add: sample_request_def)




subsection \<open>The sensor tag of the written point\<close>

lemma accepted_not_error [simp]: "http_Error msg code = accepted \<longleftrightarrow> False"
  by (simp add: http_Error_def accepted_def)

lemma accepted_run:
  assumes acc: "outcome_of (handleUpload e lims now r) = Responded accepted"
  obtains rd raw code bucket where
    "passes_quota e lims now r rd raw code bucket"
    "marshal_ok e (request_point r rd raw)"
    "influx_write_ok e bucket (request_point r rd raw)"
    "handleUpload e lims now r =
       (Responded accepted, tr_write r bucket @ [PointWrite bucket (request_point r rd raw)],
        snd (acquire lims now (bearer r) (sensor_id r)))"
proof (cases rule: handleUpload_cases [where r = r and e = e and lims = lims and now = now])
  case wrong_method
  with acc show ?thesis by (simp add: run_method outcome_of_def)
next
  case auth
  with acc show ?thesis by (simp add: run_auth outcome_of_def)
next
  case params
  with acc show ?thesis by (simp add: run_params outcome_of_def)
next
  case key
  with acc show ?thesis by (simp add: run_key outcome_of_def)
next
  case sensor
  with acc show ?thesis by (simp add: run_sensor outcome_of_def)
next
  case rate
  with acc show ?thesis by (simp add: run_rate outcome_of_def)
next
  case decode
  with acc show ?thesis by (simp add: run_decode outcome_of_def)
next
  case timestamp
  with acc show ?thesis by (simp add: run_timestamp outcome_of_def)
next
  case reading
  with acc show ?thesis by (simp add: run_reading outcome_of_def)
next
  case panic
  then have "outcome_of (handleUpload e lims now r) = Panicked"
    by (simp add: run_panic outcome_of_def)
  with acc show ?thesis by simp
next
  case retention
  then have "handleUpload e lims now r =
     (Responded (http_Error ''Unknown retention level'' 400), tr_classify r,
      snd (acquire lims now (bearer r) (sensor_id r)))"
    by (rule run_retention)
  with acc show ?thesis by (simp add: outcome_of_def)
next
  case (quota rd raw code bucket resp)
  then have "handleUpload e lims now r =
     (Responded resp, tr_quota r bucket, snd (acquire lims now (bearer r) (sensor_id r)))"
    by (rule run_quota)
  with acc have "resp = accepted" by (simp add: outcome_of_def)
  with validateCountLimit_status [OF quota(2)] show ?thesis by simp
next
  case (admit rd raw code bucket)
  note run = run_write [OF admit]
  show ?thesis
  proof (rule that [OF admit])
    show m: "marshal_ok e (request_point r rd raw)"
      using acc run by (auto simp add: outcome_of_def split: if_splits)
    show w: "influx_write_ok e bucket (request_point r rd raw)"
      using acc run by (auto simp add: outcome_of_def split: if_splits)
    show "handleUpload e lims now r =
       (Responded accepted, tr_write r bucket @ [PointWrite bucket (request_point r rd raw)],
        snd (acquire lims now (bearer r) (sensor_id r)))"
      using run m w by simp
  qed
qed

text \<open>
  C10: when a request is accepted, exactly one point is written; its sensor tag is the body's
  \<open>sensorId\<close> when that is present and not empty, and the \<open>sensor_id\<close> query parameter
  otherwise; the only sensor looked up in the identity store is the query parameter's. So a
  body with another, non-empty \<open>sensorId\<close> gets its point written under a sensor that no
  lookup has checked.
\<close>

theorem C10_sensor_tag_not_validated:
  "outcome_of (handleUpload e lims now r) = Responded accepted \<Longrightarrow>
   \<exists>rd raw bucket p.
     Body r = Inr rd \<and> Timestamp rd = Some raw
     \<and> point_writes (trace_of (handleUpload e lims now r)) = [(bucket, p)]
     \<and> p = request_point r rd raw
     \<and> tags p ''sensor'' =
         Some (case SensorID rd of
                 None \<Rightarrow> sensor_id r
               | Some s \<Rightarrow> if s = [] then sensor_id r else s)
     \<and> sensor_lookups (trace_of (handleUpload e lims now r)) = [(org_id r, sensor_id r)]
     \<and> (\<forall>s. SensorID rd = Some s \<and> s \<noteq> [] \<and> s \<noteq> sensor_id r \<longrightarrow>
           tags p ''sensor'' = Some s
           \<and> (org_id r, s) \<notin> set (sensor_lookups (trace_of (handleUpload e lims now r))))"
proof -
  assume "outcome_of (handleUpload e lims now r) = Responded accepted"
  then obtain rd raw code bucket where
    pq: "passes_quota e lims now r rd raw code bucket" and
    run: "handleUpload e lims now r =
       (Responded accepted, tr_write r bucket @ [PointWrite bucket (request_point r rd raw)],
        snd (acquire lims now (bearer r) (sensor_id r)))"
    by (rule accepted_run)
  from pq have body: "Body r = Inr rd" "Timestamp rd = Some raw"
    by (simp_all add: passes_quota_def passes_classify_def passes_validate_def)
  have writes: "point_writes (trace_of (handleUpload e lims now r)) = [(bucket, request_point r rd raw)]"
    by (simp add: run trace_of_def tr_defs)
  have lookups: "sensor_lookups (trace_of (handleUpload e lims now r)) = [(org_id r, sensor_id r)]"
    by (simp add: run trace_of_def tr_defs)
  have tag: "tags (request_point r rd raw) ''sensor'' = Some (sensor_tag r rd)"
    by (simp add: request_point_def make_point_def Let_def)
  have tag': "tags (request_point r rd raw) ''sensor'' =
         Some (case SensorID rd of
                 None \<Rightarrow> sensor_id r
               | Some s \<Rightarrow> if s = [] then sensor_id r else s)"
    using tag by (simp add: sensor_tag_def)
  have other: "\<forall>s. SensorID rd = Some s \<and> s \<noteq> [] \<and> s \<noteq> sensor_id r \<longrightarrow>
           tags (request_point r rd raw) ''sensor'' = Some s
           \<and> (org_id r, s) \<notin> set (sensor_lookups (trace_of (handleUpload e lims now r)))"
    by (simp add: tag' lookups)
  from body writes tag' lookups other show ?thesis
    by blast
qed

text \<open>
  C10 on the sample request with \<open>sensorId\<close> \<open>dev2\<close> in the body: the request is accepted,
  the point is tagged \<open>dev2\<close>, and only \<open>dev1\<close> was looked up.
\<close>

theorem C10_sensor_tag_not_validated_witness:
  "outcome_of (handleUpload sample_env Map.empty 0
      (sample_request\<lparr>Body := Inr (sample_reading\<lparr>SensorID := Some ''dev2''\<rparr>)\<rparr>))
     = Responded accepted
   \<and> (\<exists>bucket p.
        point_writes (trace_of (handleUpload sample_env Map.empty 0
          (sample_request\<lparr>Body := Inr (sample_reading\<lparr>SensorID := Some ''dev2''\<rparr>)\<rparr>)))
          = [(bucket, p)]
        \<and> tags p ''sensor'' = Some ''dev2'')
   \<and> sensor_lookups (trace_of (handleUpload sample_env Map.empty 0
        (sample_request\<lparr>Body := Inr (sample_reading\<lparr>SensorID := Some ''dev2''\<rparr>)\<rparr>)))
       = [(''org1'', ''dev1'')]"
proof -
  let ?r = "sample_request\<lparr>Body := Inr (sample_reading\<lparr>SensorID := Some ''dev2''\<rparr>)\<rparr>"
  have pq: "passes_quota sample_env Map.empty 0 ?r (sample_reading\<lparr>SensorID := Some ''dev2''\<rparr>)
      1700000000 ''0007'' ''retention_7d''"
    by (simp add: eval_defs Let_def sample_defs validateCountLimit_def)
  have acc: "outcome_of (handleUpload sample_env Map.empty 0 ?r) = Responded accepted"
    using run_write [OF pq] by (simp add: outcome_of_def sample_env_def)
  from C10_sensor_tag_not_validated [OF acc] obtain rd raw bucket p where
    "Body ?r = Inr rd"
    "point_writes (trace_of (handleUpload sample_env Map.empty 0 ?r)) = [(bucket, p)]"
    "tags p ''sensor'' =
         Some (case SensorID rd of
                 None \<Rightarrow> sensor_id ?r
               | Some s \<Rightarrow> if s = [] then sensor_id ?r else s)"
    "sensor_lookups (trace_of (handleUpload sample_env Map.empty 0 ?r)) = [(org_id ?r, sensor_id ?r)]"
    by blast
  then show ?thesis
    using acc by (auto simp add: sample_defs)
qed




subsection \<open>The status of every failure class\<close>

lemma status_method: "Method r \<noteq> ''POST'' \<Longrightarrow> upload_status e lims now r = Some 405"
  by (simp add: run_method run_simps)

lemma status_auth:
  "Method r = ''POST'' \<Longrightarrow> \<not> HasPrefix (Authorization r) ''Bearer '' \<Longrightarrow>
   upload_status e lims now r = Some 401"
  by (simp add: run_auth run_simps)

lemma status_params:
  "Method r = ''POST'' \<Longrightarrow> HasPrefix (Authorization r) ''Bearer '' \<Longrightarrow>
   org_id r = [] \<or> sensor_id r = [] \<Longrightarrow> upload_status e lims now r = Some 400"
  by (simp add: run_params run_simps)

lemma status_key:
  "passes_params r \<Longrightarrow> \<not> fst (validateAPIKey e (org_id r) (bearer r)) \<Longrightarrow>
   upload_status e lims now r = Some 401"
  by (simp add: run_key run_simps)

lemma status_sensor:
  "passes_params r \<Longrightarrow> fst (validateAPIKey e (org_id r) (bearer r)) \<Longrightarrow>
   \<not> fst (validateSensorID e (org_id r) (sensor_id r)) \<Longrightarrow>
   upload_status e lims now r = Some 401"
  by (simp add: run_sensor run_simps)

lemma status_rate:
  "passes_access e r \<Longrightarrow> \<not> fst (acquire lims now (bearer r) (sensor_id r)) \<Longrightarrow>
   upload_status e lims now r = Some 429"
  by (simp add: run_rate run_simps)

lemma status_decode:
  "passes_rate e lims now r \<Longrightarrow> Body r = Inl err \<Longrightarrow> upload_status e lims now r = Some 400"
  by (simp add: run_decode run_simps)

lemma status_timestamp:
  "passes_rate e lims now r \<Longrightarrow> Body r = Inr rd \<Longrightarrow> Timestamp rd = None \<Longrightarrow>
   upload_status e lims now r = Some 400"
  by (simp add: run_timestamp run_simps)

lemma status_reading:
  "passes_rate e lims now r \<Longrightarrow> Body r = Inr rd \<Longrightarrow> Timestamp rd = Some raw \<Longrightarrow>
   validateReading rd \<noteq> None \<Longrightarrow> upload_status e lims now r = Some 400"
  by (auto simp add: run_reading run_simps)

lemma status_retention:
  "passes_validate e lims now r rd raw \<Longrightarrow> retention_code (bearer r) = Some code \<Longrightarrow>
   retentionBuckets code = None \<Longrightarrow> upload_status e lims now r = Some 400"
  using run_retention [of e lims now r rd raw code] by (simp add: run_simps)

lemma status_quota:
  "passes_classify e lims now r rd raw code bucket \<Longrightarrow>
   fst (validateCountLimit e (org_id r) code bucket) = Some resp \<Longrightarrow>
   upload_status e lims now r = Some (status resp)"
  using run_quota [of e lims now r rd raw code bucket resp] by (simp add: run_simps)

lemma status_write:
  "passes_quota e lims now r rd raw code bucket \<Longrightarrow>
   upload_status e lims now r =
     (if marshal_ok e (request_point r rd raw) \<and> influx_write_ok e bucket (request_point r rd raw)
      then Some 202 else Some 500)"
  using run_write [of e lims now r rd raw code bucket] by (simp add: run_simps)

lemma validateCountLimit_402:
  "fst (validateCountLimit e org code bucket) = Some resp \<Longrightarrow> status resp = 402 \<Longrightarrow>
   \<exists>maxPoints rows. quotaMap code = Some maxPoints
     \<and> influx_query e bucket (count_sql org) = QueryRows rows False
     \<and> sint maxPoints \<le> sint (read_count 0 rows)"
  by (auto simp add: validateCountLimit_def Let_def split: option.splits query_result.splits if_splits)


text \<open>
  The status of the response is fixed by the first gate that fails. 405 for a method
  other than POST; 401 for an Authorization header without the \<open>Bearer\<close> prefix, for a
  credential that access control refuses and for a sensor the identity store does not have;
  400 for a missing \<open>org_id\<close> or \<open>sensor_id\<close>, a body that does not decode, a missing
  timestamp, a value of a wrong type and a retention code outside the tier table; 429 when the
  rate gate refuses; 402 when the count has reached the ceiling; 500 when the count query, the
  marshalling or the write fails; 202 with body \<open>{"status":"accepted"}\<close> when every gate
  passes. Conversely 405, 401, 429, 402 and 202 come from no other class. The classes from
  retention classification on are those of a credential that carries a retention code.
\<close>

lemma status_by_failure_class:
  \<open>(Method r \<noteq> ''POST'' \<longrightarrow> upload_status e lims now r = Some 405)
   \<and> (Method r = ''POST'' \<and> \<not> HasPrefix (Authorization r) ''Bearer '' \<longrightarrow>
        upload_status e lims now r = Some 401)
   \<and> (passes_params r \<and> \<not> fst (validateAPIKey e (org_id r) (bearer r)) \<longrightarrow>
        upload_status e lims now r = Some 401)
   \<and> (passes_params r \<and> fst (validateAPIKey e (org_id r) (bearer r))
        \<and> \<not> fst (validateSensorID e (org_id r) (sensor_id r)) \<longrightarrow>
        upload_status e lims now r = Some 401)
   \<and> (Method r = ''POST'' \<and> HasPrefix (Authorization r) ''Bearer ''
        \<and> (org_id r = [] \<or> sensor_id r = []) \<longrightarrow>
        upload_status e lims now r = Some 400)
   \<and> (passes_rate e lims now r \<and> Body r = Inl err \<longrightarrow>
        upload_status e lims now r = Some 400)
   \<and> (passes_rate e lims now r \<and> Body r = Inr rd \<and> Timestamp rd = None \<longrightarrow>
        upload_status e lims now r = Some 400)
   \<and> (passes_rate e lims now r \<and> Body r = Inr rd \<and> Timestamp rd = Some raw
        \<and> validateReading rd \<noteq> None \<longrightarrow>
        upload_status e lims now r = Some 400)
   \<and> (passes_validate e lims now r rd raw \<and> retention_code (bearer r) = Some code
        \<and> retentionBuckets code = None \<longrightarrow>
        upload_status e lims now r = Some 400)
   \<and> (passes_access e r \<and> \<not> fst (acquire lims now (bearer r) (sensor_id r)) \<longrightarrow>
        upload_status e lims now r = Some 429)
   \<and> (passes_classify e lims now r rd raw code bucket \<and> quotaMap code = Some maxPoints
        \<and> influx_query e bucket (count_sql (org_id r)) = QueryRows rows False
        \<and> sint maxPoints \<le> sint (read_count 0 rows) \<longrightarrow>
        upload_status e lims now r = Some 402)
   \<and> (passes_classify e lims now r rd raw code bucket
        \<and> (influx_query e bucket (count_sql (org_id r)) = QueryError
             \<or> influx_query e bucket (count_sql (org_id r)) = QueryRows rows True) \<longrightarrow>
        upload_status e lims now r = Some 500)
   \<and> (passes_quota e lims now r rd raw code bucket
        \<and> \<not> marshal_ok e (request_point r rd raw) \<longrightarrow>
        upload_status e lims now r = Some 500)
   \<and> (passes_quota e lims now r rd raw code bucket
        \<and> marshal_ok e (request_point r rd raw)
        \<and> \<not> influx_write_ok e bucket (request_point r rd raw) \<longrightarrow>
        upload_status e lims now r = Some 500)
   \<and> (passes_quota e lims now r rd raw code bucket
        \<and> marshal_ok e (request_point r rd raw)
        \<and> influx_write_ok e bucket (request_point r rd raw) \<longrightarrow>
        outcome_of (handleUpload e lims now r) =
          Responded \<lparr>status = 202, content_type = ''application/json'',
            body = ''{"status":"accepted"}''\<rparr>)
   \<and> (upload_status e lims now r = Some 405 \<longrightarrow> Method r \<noteq> ''POST'')
   \<and> (upload_status e lims now r = Some 401 \<longrightarrow>
        Method r = ''POST''
        \<and> (\<not> HasPrefix (Authorization r) ''Bearer ''
             \<or> passes_params r \<and> \<not> passes_access e r))
   \<and> (upload_status e lims now r = Some 429 \<longrightarrow>
        passes_access e r \<and> \<not> fst (acquire lims now (bearer r) (sensor_id r)))
   \<and> (upload_status e lims now r = Some 402 \<longrightarrow>
        (\<exists>rd raw code bucket maxPoints rows.
           passes_classify e lims now r rd raw code bucket \<and> quotaMap code = Some maxPoints
           \<and> influx_query e bucket (count_sql (org_id r)) = QueryRows rows False
           \<and> sint maxPoints \<le> sint (read_count 0 rows)))
   \<and> (upload_status e lims now r = Some 202 \<longrightarrow>
        (\<exists>rd raw code bucket.
           passes_quota e lims now r rd raw code bucket
           \<and> marshal_ok e (request_point r rd raw)
           \<and> influx_write_ok e bucket (request_point r rd raw)))\<close>
proof -
  have q402: "upload_status e lims now r = Some 402"
    if "passes_classify e lims now r rd raw code bucket \<and> quotaMap code = Some maxPoints
        \<and> influx_query e bucket (count_sql (org_id r)) = QueryRows rows False
        \<and> sint maxPoints \<le> sint (read_count 0 rows)"
  proof -
    from that have "fst (validateCountLimit e (org_id r) code bucket)
        = Some (http_Error ''Quota exceeded'' 402)"
      by (simp add: validateCountLimit_rows)
    with that show ?thesis
      using status_quota [of e lims now r rd raw code bucket] by simp
  qed
  have q500: "upload_status e lims now r = Some 500"
    if "passes_classify e lims now r rd raw code bucket
        \<and> (influx_query e bucket (count_sql (org_id r)) = QueryError
             \<or> influx_query e bucket (count_sql (org_id r)) = QueryRows rows True)"
  proof -
    from that obtain maxPoints where "quotaMap code = Some maxPoints"
      using retentionBuckets_Some [of code bucket] by (auto simp add: passes_classify_def)
    with that have "fst (validateCountLimit e (org_id r) code bucket)
        = Some (http_Error ''Internal Server Error'' 500)"
      using validateCountLimit_failed [of code maxPoints e bucket "org_id r" rows] by blast
    with that show ?thesis
      using status_quota [of e lims now r rd raw code bucket] by simp
  qed
  have ok: \<open>outcome_of (handleUpload e lims now r) =
          Responded \<lparr>status = 202, content_type = ''application/json'',
            body = ''{"status":"accepted"}''\<rparr>\<close>
    if "passes_quota e lims now r rd raw code bucket
        \<and> marshal_ok e (request_point r rd raw)
        \<and> influx_write_ok e bucket (request_point r rd raw)"
    using that run_write [of e lims now r rd raw code bucket]
    by (simp add: outcome_of_def accepted_def)
  have c405: "Method r \<noteq> ''POST''" if st: "upload_status e lims now r = Some 405"
  proof (cases rule: handleUpload_cases [where r = r and e = e and lims = lims and now = now])
    case wrong_method then show ?thesis .
  next
    case auth with st show ?thesis by (simp add: status_auth)
  next
    case params with st show ?thesis by (simp add: status_params)
  next
    case key with st show ?thesis by (simp add: status_key)
  next
    case sensor with st show ?thesis by (simp add: status_sensor)
  next
    case rate with st show ?thesis by (simp add: status_rate)
  next
    case decode with st show ?thesis by (simp add: status_decode)
  next
    case timestamp with st show ?thesis by (simp add: status_timestamp)
  next
    case reading with st show ?thesis by (simp add: status_reading)
  next
    case panic with st show ?thesis by (simp add: run_panic run_simps)
  next
    case (retention rd raw code)
    with st status_retention [of e lims now r rd raw code] show ?thesis by simp
  next
    case (quota rd raw code bucket resp)
    with st status_quota [of e lims now r rd raw code bucket resp]
      validateCountLimit_status [of e "org_id r" code bucket resp]
    show ?thesis by auto
  next
    case (admit rd raw code bucket)
    with st status_write [of e lims now r rd raw code bucket] show ?thesis
      by (simp split: if_splits)
  qed
  have c401: "Method r = ''POST''
        \<and> (\<not> HasPrefix (Authorization r) ''Bearer '' \<or> passes_params r \<and> \<not> passes_access e r)"
    if st: "upload_status e lims now r = Some 401"
  proof (cases rule: handleUpload_cases [where r = r and e = e and lims = lims and now = now])
    case wrong_method with st show ?thesis by (simp add: status_method)
  next
    case auth then show ?thesis by simp
  next
    case params with st show ?thesis by (simp add: status_params)
  next
    case key then show ?thesis by (simp add: passes_access_def passes_params_def)
  next
    case sensor then show ?thesis by (simp add: passes_access_def passes_params_def)
  next
    case rate with st show ?thesis by (simp add: status_rate)
  next
    case decode with st show ?thesis by (simp add: status_decode)
  next
    case timestamp with st show ?thesis by (simp add: status_timestamp)
  next
    case reading with st show ?thesis by (simp add: status_reading)
  next
    case panic with st show ?thesis by (simp add: run_panic run_simps)
  next
    case (retention rd raw code)
    with st status_retention [of e lims now r rd raw code] show ?thesis by simp
  next
    case (quota rd raw code bucket resp)
    with st status_quota [of e lims now r rd raw code bucket resp]
      validateCountLimit_status [of e "org_id r" code bucket resp]
    show ?thesis by auto
  next
    case (admit rd raw code bucket)
    with st status_write [of e lims now r rd raw code bucket] show ?thesis
      by (simp split: if_splits)
  qed
  have c429: "passes_access e r \<and> \<not> fst (acquire lims now (bearer r) (sensor_id r))"
    if st: "upload_status e lims now r = Some 429"
  proof (cases rule: handleUpload_cases [where r = r and e = e and lims = lims and now = now])
    case wrong_method with st show ?thesis by (simp add: status_method)
  next
    case auth with st show ?thesis by (simp add: status_auth)
  next
    case params with st show ?thesis by (simp add: status_params)
  next
    case key with st show ?thesis by (simp add: status_key)
  next
    case sensor with st show ?thesis by (simp add: status_sensor)
  next
    case rate then show ?thesis by simp
  next
    case decode with st show ?thesis by (simp add: status_decode)
  next
    case timestamp with st show ?thesis by (simp add: status_timestamp)
  next
    case reading with st show ?thesis by (simp add: status_reading)
  next
    case panic with st show ?thesis by (simp add: run_panic run_simps)
  next
    case (retention rd raw code)
    with st status_retention [of e lims now r rd raw code] show ?thesis by simp
  next
    case (quota rd raw code bucket resp)
    with st status_quota [of e lims now r rd raw code bucket resp]
      validateCountLimit_status [of e "org_id r" code bucket resp]
    show ?thesis by auto
  next
    case (admit rd raw code bucket)
    with st status_write [of e lims now r rd raw code bucket] show ?thesis
      by (simp split: if_splits)
  qed
  have c402: "\<exists>rd raw code bucket maxPoints rows.
           passes_classify e lims now r rd raw code bucket \<and> quotaMap code = Some maxPoints
           \<and> influx_query e bucket (count_sql (org_id r)) = QueryRows rows False
           \<and> sint maxPoints \<le> sint (read_count 0 rows)"
    if st: "upload_status e lims now r = Some 402"
  proof (cases rule: handleUpload_cases [where r = r and e = e and lims = lims and now = now])
    case wrong_method with st show ?thesis by (simp add: status_method)
  next
    case auth with st show ?thesis by (simp add: status_auth)
  next
    case params with st show ?thesis by (simp add: status_params)
  next
    case key with st show ?thesis by (simp add: status_key)
  next
    case sensor with st show ?thesis by (simp add: status_sensor)
  next
    case rate with st show ?thesis by (simp add: status_rate)
  next
    case decode with st show ?thesis by (simp add: status_decode)
  next
    case timestamp with st show ?thesis by (simp add: status_timestamp)
  next
    case reading with st show ?thesis by (simp add: status_reading)
  next
    case panic with st show ?thesis by (simp add: run_panic run_simps)
  next
    case (retention rd raw code)
    with st status_retention [of e lims now r rd raw code] show ?thesis by simp
  next
    case (quota rd raw code bucket resp)
    with st status_quota [of e lims now r rd raw code bucket resp]
    have "status resp = 402" by simp
    with quota validateCountLimit_402 [of e "org_id r" code bucket resp]
    show ?thesis by blast
  next
    case (admit rd raw code bucket)
    with st status_write [of e lims now r rd raw code bucket] show ?thesis
      by (simp split: if_splits)
  qed
  have c202: "\<exists>rd raw code bucket.
           passes_quota e lims now r rd raw code bucket
           \<and> marshal_ok e (request_point r rd raw)
           \<and> influx_write_ok e bucket (request_point r rd raw)"
    if st: "upload_status e lims now r = Some 202"
  proof (cases rule: handleUpload_cases [where r = r and e = e and lims = lims and now = now])
    case wrong_method with st show ?thesis by (simp add: status_method)
  next
    case auth with st show ?thesis by (simp add: status_auth)
  next
    case params with st show ?thesis by (simp add: status_params)
  next
    case key with st show ?thesis by (simp add: status_key)
  next
    case sensor with st show ?thesis by (simp add: status_sensor)
  next
    case rate with st show ?thesis by (simp add: status_rate)
  next
    case decode with st show ?thesis by (simp add: status_decode)
  next
    case timestamp with st show ?thesis by (simp add: status_timestamp)
  next
    case reading with st show ?thesis by (simp add: status_reading)
  next
    case panic with st show ?thesis by (simp add: run_panic run_simps)
  next
    case (retention rd raw code)
    with st status_retention [of e lims now r rd raw code] show ?thesis by simp
  next
    case (quota rd raw code bucket resp)
    with st status_quota [of e lims now r rd raw code bucket resp]
      validateCountLimit_status [of e "org_id r" code bucket resp]
    show ?thesis by auto
  next
    case (admit rd raw code bucket)
    with st status_write [of e lims now r rd raw code bucket] show ?thesis
      by (auto split: if_splits)
  qed
  show ?thesis
  proof (intro conjI impI)
    show "upload_status e lims now r = Some 405" if "Method r \<noteq> ''POST''"
      using that by (rule status_method)
    show "upload_status e lims now r = Some 401"
      if "Method r = ''POST'' \<and> \<not> HasPrefix (Authorization r) ''Bearer ''"
      using that by (simp add: status_auth)
    show "upload_status e lims now r = Some 401"
      if "passes_params r \<and> \<not> fst (validateAPIKey e (org_id r) (bearer r))"
      using that by (simp add: status_key)
    show "upload_status e lims now r = Some 401"
      if "passes_params r \<and> fst (validateAPIKey e (org_id r) (bearer r))
        \<and> \<not> fst (validateSensorID e (org_id r) (sensor_id r))"
      using that by (simp add: status_sensor)
    show "upload_status e lims now r = Some 400"
      if "Method r = ''POST'' \<and> HasPrefix (Authorization r) ''Bearer ''
        \<and> (org_id r = [] \<or> sensor_id r = [])"
      using that by (simp add: status_params)
    show "upload_status e lims now r = Some 400" if "passes_rate e lims now r \<and> Body r = Inl err"
      using that by (simp add: status_decode)
    show "upload_status e lims now r = Some 400"
      if "passes_rate e lims now r \<and> Body r = Inr rd \<and> Timestamp rd = None"
      using that by (simp add: status_timestamp)
    show "upload_status e lims now r = Some 400"
      if "passes_rate e lims now r \<and> Body r = Inr rd \<and> Timestamp rd = Some raw
        \<and> validateReading rd \<noteq> None"
      using that status_reading [of e lims now r rd raw] by simp
    show "upload_status e lims now r = Some 400"
      if "passes_validate e lims now r rd raw \<and> retention_code (bearer r) = Some code
        \<and> retentionBuckets code = None"
      using that status_retention [of e lims now r rd raw code] by simp
    show "upload_status e lims now r = Some 429"
      if "passes_access e r \<and> \<not> fst (acquire lims now (bearer r) (sensor_id r))"
      using that by (simp add: status_rate)
    show "upload_status e lims now r = Some 500"
      if "passes_quota e lims now r rd raw code bucket \<and> \<not> marshal_ok e (request_point r rd raw)"
      using that status_write [of e lims now r rd raw code bucket] by simp
    show "upload_status e lims now r = Some 500"
      if "passes_quota e lims now r rd raw code bucket \<and> marshal_ok e (request_point r rd raw)
        \<and> \<not> influx_write_ok e bucket (request_point r rd raw)"
      using that status_write [of e lims now r rd raw code bucket] by simp
  qed (use q402 q500 ok c405 c401 c429 c402 c202 in blast)+
qed


text \<open>
  The sample request and variants of it, one for each status: another method, another
  authorization scheme, an access level that may not upload, an unknown sensor, an empty
  \<open>org_id\<close>, a body that does not decode, no timestamp, a null value, retention code 9999, a
  drained bucket, a tier at its ceiling, a failing count query, a failing write.
\<close>

lemma status_by_failure_class_samples:
  "upload_status sample_env Map.empty 0 (sample_request\<lparr>Method := ''GET''\<rparr>) = Some 405
   \<and> upload_status sample_env Map.empty 0 (sample_request\<lparr>Authorization := ''Basic abc''\<rparr>) = Some 401
   \<and> upload_status sample_env Map.empty 0 (sample_request\<lparr>Authorization := ''Bearer key-000701''\<rparr>) = Some 401
   \<and> upload_status sample_env Map.empty 0 (sample_request\<lparr>sensor_id := ''dev9''\<rparr>) = Some 401
   \<and> upload_status sample_env Map.empty 0 (sample_request\<lparr>org_id := []\<rparr>) = Some 400
   \<and> upload_status sample_env Map.empty 0 (sample_request\<lparr>Body := Inl ''EOF''\<rparr>) = Some 400
   \<and> upload_status sample_env Map.empty 0
        (sample_request\<lparr>Body := Inr (sample_reading\<lparr>Timestamp := None\<rparr>)\<rparr>) = Some 400
   \<and> upload_status sample_env Map.empty 0
        (sample_request\<lparr>Body := Inr (sample_reading\<lparr>Value := JNull\<rparr>)\<rparr>) = Some 400
   \<and> upload_status sample_env Map.empty 0
        (sample_request\<lparr>Authorization := ''Bearer key-999902''\<rparr>) = Some 400
   \<and> upload_status sample_env drained_limiters 0 sample_request = Some 429
   \<and> upload_status full_env Map.empty 0 sample_request = Some 402
   \<and> upload_status (sample_env\<lparr>influx_query := \<lambda>bucket sql. QueryError\<rparr>) Map.empty 0
        sample_request = Some 500
   \<and> upload_status (sample_env\<lparr>influx_write_ok := \<lambda>bucket p. False\<rparr>) Map.empty 0
        sample_request = Some 500
   \<and> outcome_of (handleUpload sample_env Map.empty 0 sample_request) = Responded accepted"
proof -
  note ev = eval_defs Let_def sample_defs full_env_def drained_limiters_def validateCountLimit_def
  let ?rd = sample_reading
  let ?raw = "1700000000 :: int64"
  have s405: "upload_status sample_env Map.empty 0 (sample_request\<lparr>Method := ''GET''\<rparr>) = Some 405"
    using status_by_failure_class [of "sample_request\<lparr>Method := ''GET''\<rparr>" sample_env
        Map.empty 0 "[]" ?rd ?raw "[]" "[]" 0 "[]",
          THEN conjunct1]
    by (simp add: sample_defs)
  have s401a: "upload_status sample_env Map.empty 0 (sample_request\<lparr>Authorization := ''Basic abc''\<rparr>) = Some 401"
    using status_by_failure_class [of "sample_request\<lparr>Authorization := ''Basic abc''\<rparr>"
        sample_env Map.empty 0 "[]" ?rd ?raw "[]" "[]" 0 "[]",
          THEN conjunct2, THEN conjunct1]
    by (simp add: sample_defs HasPrefix_def)
  have s401b: "upload_status sample_env Map.empty 0
      (sample_request\<lparr>Authorization := ''Bearer key-000701''\<rparr>) = Some 401"
  proof -
    let ?r = "sample_request\<lparr>Authorization := ''Bearer key-000701''\<rparr>"
    have "passes_params ?r \<and> \<not> fst (validateAPIKey sample_env (org_id ?r) (bearer ?r))"
      by (simp add: ev)
    then show ?thesis
      using status_by_failure_class [of ?r sample_env Map.empty 0 "[]" ?rd ?raw "[]" "[]" 0 "[]",
          THEN conjunct2, THEN conjunct2, THEN conjunct1]
      by blast
  qed
  have s401c: "upload_status sample_env Map.empty 0 (sample_request\<lparr>sensor_id := ''dev9''\<rparr>) = Some 401"
  proof -
    let ?r = "sample_request\<lparr>sensor_id := ''dev9''\<rparr>"
    have "passes_params ?r \<and> fst (validateAPIKey sample_env (org_id ?r) (bearer ?r))
        \<and> \<not> fst (validateSensorID sample_env (org_id ?r) (sensor_id ?r))"
      by (simp add: ev)
    then show ?thesis
      using status_by_failure_class [of ?r sample_env Map.empty 0 "[]" ?rd ?raw "[]" "[]" 0 "[]",
          THEN conjunct2, THEN conjunct2, THEN conjunct2, THEN conjunct1]
      by blast
  qed
  have s400a: "upload_status sample_env Map.empty 0 (sample_request\<lparr>org_id := []\<rparr>) = Some 400"
  proof -
    let ?r = "sample_request\<lparr>org_id := []\<rparr>"
    have "Method ?r = ''POST'' \<and> HasPrefix (Authorization ?r) ''Bearer ''
        \<and> (org_id ?r = [] \<or> sensor_id ?r = [])"
      by (simp add: ev)
    then show ?thesis
      using status_by_failure_class [of ?r sample_env Map.empty 0 "[]" ?rd ?raw "[]" "[]" 0 "[]",
          THEN conjunct2, THEN conjunct2, THEN conjunct2, THEN conjunct2, THEN conjunct1]
      by blast
  qed
  have s400b: "upload_status sample_env Map.empty 0 (sample_request\<lparr>Body := Inl ''EOF''\<rparr>) = Some 400"
  proof -
    let ?r = "sample_request\<lparr>Body := Inl ''EOF''\<rparr>"
    have "passes_rate sample_env Map.empty 0 ?r \<and> Body ?r = Inl ''EOF''"
      by (simp add: ev)
    then show ?thesis
      using status_by_failure_class [of ?r sample_env Map.empty 0 "''EOF''" ?rd ?raw "[]" "[]" 0 "[]",
          THEN conjunct2, THEN conjunct2, THEN conjunct2, THEN conjunct2, THEN conjunct2, THEN conjunct1]
      by blast
  qed
  have s400c: "upload_status sample_env Map.empty 0
        (sample_request\<lparr>Body := Inr (sample_reading\<lparr>Timestamp := None\<rparr>)\<rparr>) = Some 400"
  proof -
    let ?d = "sample_reading\<lparr>Timestamp := None\<rparr>"
    let ?r = "sample_request\<lparr>Body := Inr ?d\<rparr>"
    have "passes_rate sample_env Map.empty 0 ?r \<and> Body ?r = Inr ?d \<and> Timestamp ?d = None"
      by (simp add: ev)
    then show ?thesis
      using status_by_failure_class [of ?r sample_env Map.empty 0 "[]" ?d ?raw "[]" "[]" 0 "[]",
          THEN conjunct2, THEN conjunct2, THEN conjunct2, THEN conjunct2, THEN conjunct2, THEN conjunct2, THEN conjunct1]
      by blast
  qed
  have s400d: "upload_status sample_env Map.empty 0
        (sample_request\<lparr>Body := Inr (sample_reading\<lparr>Value := JNull\<rparr>)\<rparr>) = Some 400"
  proof -
    let ?d = "sample_reading\<lparr>Value := JNull\<rparr>"
    let ?r = "sample_request\<lparr>Body := Inr ?d\<rparr>"
    have "passes_rate sample_env Map.empty 0 ?r \<and> Body ?r = Inr ?d \<and> Timestamp ?d = Some ?raw
        \<and> validateReading ?d \<noteq> None"
      by (simp add: ev)
    then show ?thesis
      using status_by_failure_class [of ?r sample_env Map.empty 0 "[]" ?d ?raw "[]" "[]" 0 "[]",
          THEN conjunct2, THEN conjunct2, THEN conjunct2, THEN conjunct2, THEN conjunct2, THEN conjunct2, THEN conjunct2, THEN conjunct1]
      by blast
  qed
  have s400e: "upload_status sample_env Map.empty 0
        (sample_request\<lparr>Authorization := ''Bearer key-999902''\<rparr>) = Some 400"
  proof -
    let ?r = "sample_request\<lparr>Authorization := ''Bearer key-999902''\<rparr>"
    have "passes_validate sample_env Map.empty 0 ?r ?rd ?raw
        \<and> retention_code (bearer ?r) = Some ''9999'' \<and> retentionBuckets ''9999'' = None"
      by (simp add: ev)
    then show ?thesis
      using status_by_failure_class [of ?r sample_env Map.empty 0 "[]" ?rd ?raw "''9999''" "[]" 0 "[]",
          THEN conjunct2, THEN conjunct2, THEN conjunct2, THEN conjunct2, THEN conjunct2, THEN conjunct2, THEN conjunct2, THEN conjunct2, THEN conjunct1]
      by blast
  qed
  have s429: "upload_status sample_env drained_limiters 0 sample_request = Some 429"
  proof -
    have "passes_access sample_env sample_request
        \<and> \<not> fst (acquire drained_limiters 0 (bearer sample_request) (sensor_id sample_request))"
      by (simp add: ev)
    then show ?thesis
      using status_by_failure_class [of sample_request sample_env drained_limiters 0 "[]" ?rd ?raw
          "[]" "[]" 0 "[]",
          THEN conjunct2, THEN conjunct2, THEN conjunct2, THEN conjunct2, THEN conjunct2, THEN conjunct2, THEN conjunct2, THEN conjunct2, THEN conjunct2, THEN conjunct1]
      by blast
  qed
  have s402: "upload_status full_env Map.empty 0 sample_request = Some 402"
  proof -
    have "passes_classify full_env Map.empty 0 sample_request ?rd ?raw ''0007'' ''retention_7d''
        \<and> quotaMap ''0007'' = Some 10000
        \<and> influx_query full_env ''retention_7d'' (count_sql (org_id sample_request))
            = QueryRows [[''count'' \<mapsto> QInt64 10000]] False
        \<and> sint (10000 :: int64) \<le> sint (read_count 0 [[''count'' \<mapsto> QInt64 10000]])"
      by (simp add: ev)
    then show ?thesis
      using status_by_failure_class [of sample_request full_env Map.empty 0 "[]" ?rd ?raw
          "''0007''" "''retention_7d''" 10000 "[[''count'' \<mapsto> QInt64 10000]]",
          THEN conjunct2, THEN conjunct2, THEN conjunct2, THEN conjunct2, THEN conjunct2, THEN conjunct2, THEN conjunct2, THEN conjunct2, THEN conjunct2, THEN conjunct2, THEN conjunct1]
      by blast
  qed
  have s500a: "upload_status (sample_env\<lparr>influx_query := \<lambda>bucket sql. QueryError\<rparr>) Map.empty 0
        sample_request = Some 500"
  proof -
    let ?e = "sample_env\<lparr>influx_query := \<lambda>bucket sql. QueryError\<rparr>"
    have "passes_classify ?e Map.empty 0 sample_request ?rd ?raw ''0007'' ''retention_7d''
        \<and> (influx_query ?e ''retention_7d'' (count_sql (org_id sample_request)) = QueryError
             \<or> influx_query ?e ''retention_7d'' (count_sql (org_id sample_request)) = QueryRows [] True)"
      by (simp add: ev)
    then show ?thesis
      using status_by_failure_class [of sample_request ?e Map.empty 0 "[]" ?rd ?raw
          "''0007''" "''retention_7d''" 10000 "[]",
          THEN conjunct2, THEN conjunct2, THEN conjunct2, THEN conjunct2, THEN conjunct2, THEN conjunct2, THEN conjunct2, THEN conjunct2, THEN conjunct2, THEN conjunct2, THEN conjunct2, THEN conjunct1]
      by blast
  qed
  have s500b: "upload_status (sample_env\<lparr>influx_write_ok := \<lambda>bucket p. False\<rparr>) Map.empty 0
        sample_request = Some 500"
  proof -
    let ?e = "sample_env\<lparr>influx_write_ok := \<lambda>bucket p. False\<rparr>"
    have "passes_quota ?e Map.empty 0 sample_request ?rd ?raw ''0007'' ''retention_7d''
        \<and> marshal_ok ?e (request_point sample_request ?rd ?raw)
        \<and> \<not> influx_write_ok ?e ''retention_7d'' (request_point sample_request ?rd ?raw)"
      by (simp add: ev)
    then show ?thesis
      using status_by_failure_class [of sample_request ?e Map.empty 0 "[]" ?rd ?raw
          "''0007''" "''retention_7d''" 10000 "[]",
          THEN conjunct2, THEN conjunct2, THEN conjunct2, THEN conjunct2, THEN conjunct2, THEN conjunct2, THEN conjunct2, THEN conjunct2, THEN conjunct2, THEN conjunct2, THEN conjunct2, THEN conjunct2, THEN conjunct2, THEN conjunct1]
      by blast
  qed
  have s202: "outcome_of (handleUpload sample_env Map.empty 0 sample_request) = Responded accepted"
  proof -
    have "passes_quota sample_env Map.empty 0 sample_request ?rd ?raw ''0007'' ''retention_7d''
        \<and> marshal_ok sample_env (request_point sample_request ?rd ?raw)
        \<and> influx_write_ok sample_env ''retention_7d'' (request_point sample_request ?rd ?raw)"
      by (simp add: ev)
    then show ?thesis
      using status_by_failure_class [of sample_request sample_env Map.empty 0 "[]" ?rd ?raw
          "''0007''" "''retention_7d''" 10000 "[]",
          THEN conjunct2, THEN conjunct2, THEN conjunct2, THEN conjunct2, THEN conjunct2, THEN conjunct2, THEN conjunct2, THEN conjunct2, THEN conjunct2, THEN conjunct2, THEN conjunct2, THEN conjunct2, THEN conjunct2, THEN conjunct2, THEN conjunct1]
      unfolding accepted_def by blast
  qed
  from s405 s401a s401b s401c s400a s400b s400c s400d s400e s429 s402 s500a s500b s202
  show ?thesis
    by blast
qed




text \<open>
  The retention code is missing exactly for credentials of fewer than 6 characters, and the
  handler writes no status exactly for the requests that get past reading validation with
  such a credential.
\<close>

lemma retention_code_None_iff: "retention_code apiKey = None \<longleftrightarrow> length apiKey < 6"
  by (auto simp add: retention_code_def go_slice_def)

lemma upload_status_None_iff:
  "upload_status e lims now r = None \<longleftrightarrow>
     (\<exists>rd raw. passes_validate e lims now r rd raw \<and> length (bearer r) < 6)"
proof
  assume "\<exists>rd raw. passes_validate e lims now r rd raw \<and> length (bearer r) < 6"
  then obtain rd raw where "passes_validate e lims now r rd raw" "retention_code (bearer r) = None"
    by (auto simp add: retention_code_None_iff)
  then show "upload_status e lims now r = None"
    by (simp add: run_panic run_simps)
next
  assume st: "upload_status e lims now r = None"
  show "\<exists>rd raw. passes_validate e lims now r rd raw \<and> length (bearer r) < 6"
  proof (cases rule: handleUpload_cases [where r = r and e = e and lims = lims and now = now])
    case wrong_method with st show ?thesis by (simp add: status_method)
  next
    case auth with st show ?thesis by (simp add: status_auth)
  next
    case params with st show ?thesis by (simp add: status_params)
  next
    case key with st show ?thesis by (simp add: status_key)
  next
    case sensor with st show ?thesis by (simp add: status_sensor)
  next
    case rate with st show ?thesis by (simp add: status_rate)
  next
    case decode with st show ?thesis by (simp add: status_decode)
  next
    case timestamp with st show ?thesis by (simp add: status_timestamp)
  next
    case reading with st show ?thesis by (simp add: status_reading)
  next
    case (panic rd raw)
    then show ?thesis by (auto simp add: retention_code_None_iff)
  next
    case (retention rd raw code)
    with st status_retention [of e lims now r rd raw code] show ?thesis by simp
  next
    case (quota rd raw code bucket resp)
    with st status_quota [of e lims now r rd raw code bucket resp] show ?thesis by simp
  next
    case (admit rd raw code bucket)
    with st status_write [of e lims now r rd raw code bucket] show ?thesis
      by (simp split: if_splits)
  qed
qed

text \<open>
  C4 fails on the code. The POST request with credential \<open>x02\<close> (allowed access level, known
  to the identity store, sensor known, bucket fresh, body well formed) passes every gate up to
  reading validation and then panics in the retention-code slice of line 182, which has no
  length guard: no status is written, neither the 400 of an unrecognised retention code nor
  any other of the claim's statuses.
\<close>

theorem C4_short_credential_no_status:
  "Method (sample_request\<lparr>Authorization := ''Bearer x02''\<rparr>) = ''POST''
   \<and> passes_validate sample_env Map.empty 0 (sample_request\<lparr>Authorization := ''Bearer x02''\<rparr>)
        sample_reading 1700000000
   \<and> retention_code (bearer (sample_request\<lparr>Authorization := ''Bearer x02''\<rparr>)) = None
   \<and> outcome_of (handleUpload sample_env Map.empty 0
        (sample_request\<lparr>Authorization := ''Bearer x02''\<rparr>)) = Panicked
   \<and> upload_status sample_env Map.empty 0 (sample_request\<lparr>Authorization := ''Bearer x02''\<rparr>)
        = None"
proof -
  let ?r = "sample_request\<lparr>Authorization := ''Bearer x02''\<rparr>"
  have m: "Method ?r = ''POST''"
    by (simp add: sample_defs)
  have pv: "passes_validate sample_env Map.empty 0 ?r sample_reading 1700000000"
    by (simp add: eval_defs Let_def sample_defs)
  have rc: "retention_code (bearer ?r) = None"
    by (simp add: eval_defs sample_defs)
  have run: "handleUpload sample_env Map.empty 0 ?r =
      (Panicked, tr_classify ?r, snd (acquire Map.empty 0 (bearer ?r) (sensor_id ?r)))"
    using pv rc by (rule run_panic)
  from m pv rc show ?thesis
    by (simp add: run run_simps)
qed

subsection \<open>The order of the gates\<close>

lemmas order_simps = trace_of_def tr_defs pipeline_def stops_at_def

lemma stops_method: "Method r \<noteq> ''POST'' \<Longrightarrow> stops_at MethodCheck (trace_of (handleUpload e lims now r))"
  by (simp add: run_method order_simps)

lemma stops_auth:
  "Method r = ''POST'' \<Longrightarrow> \<not> HasPrefix (Authorization r) ''Bearer '' \<Longrightarrow>
   stops_at AuthHeaderPresent (trace_of (handleUpload e lims now r))"
  by (simp add: run_auth order_simps)

lemma stops_params:
  "Method r = ''POST'' \<Longrightarrow> HasPrefix (Authorization r) ''Bearer '' \<Longrightarrow>
   org_id r = [] \<or> sensor_id r = [] \<Longrightarrow>
   stops_at ParamsPresent (trace_of (handleUpload e lims now r))"
  by (simp add: run_params order_simps)

lemma stops_access:
  assumes "passes_params r" "\<not> passes_access e r"
  shows "stops_at AccessControl (trace_of (handleUpload e lims now r))"
proof (cases "fst (validateAPIKey e (org_id r) (bearer r))")
  case True
  with assms have "\<not> fst (validateSensorID e (org_id r) (sensor_id r))"
    by (simp add: passes_access_def)
  with assms True show ?thesis
    by (simp add: run_sensor order_simps)
next
  case False
  with assms show ?thesis
    using validateAPIKey_cases [of e "org_id r" "bearer r"]
    by (auto simp add: run_key order_simps)
qed

lemma stops_rate:
  "passes_access e r \<Longrightarrow> \<not> passes_rate e lims now r \<Longrightarrow>
   stops_at RateLimit (trace_of (handleUpload e lims now r))"
  by (simp add: passes_rate_def run_rate order_simps)

lemma stops_decode:
  "passes_rate e lims now r \<Longrightarrow> Body r = Inl err \<Longrightarrow>
   stops_at DecodePayload (trace_of (handleUpload e lims now r))"
  by (simp add: run_decode order_simps)

lemma stops_validate:
  assumes "passes_rate e lims now r" "Body r = Inr rd"
    "Timestamp rd = None \<or> validateReading rd \<noteq> None"
  shows "stops_at ReadingValidate (trace_of (handleUpload e lims now r))"
proof (cases "Timestamp rd")
  case None
  with assms show ?thesis
    by (simp add: run_timestamp order_simps)
next
  case (Some raw)
  with assms obtain err where "validateReading rd = Some err"
    by auto
  with assms Some show ?thesis
    by (simp add: run_reading order_simps)
qed

lemma stops_classify:
  assumes "passes_validate e lims now r rd raw"
    "retention_code (bearer r) = None
     \<or> retention_code (bearer r) = Some code \<and> retentionBuckets code = None"
  shows "stops_at RetentionClassify (trace_of (handleUpload e lims now r))"
  using assms run_panic [of e lims now r rd raw] run_retention [of e lims now r rd raw code]
  by (auto simp add: order_simps)

lemma stops_quota:
  assumes "passes_classify e lims now r rd raw code bucket"
    "\<not> passes_quota e lims now r rd raw code bucket"
  shows "stops_at QuotaGuard (trace_of (handleUpload e lims now r))"
proof -
  from assms obtain resp where "fst (validateCountLimit e (org_id r) code bucket) = Some resp"
    by (auto simp add: passes_quota_def)
  with assms show ?thesis
    using run_quota [of e lims now r rd raw code bucket resp] by (simp add: order_simps)
qed

lemma stops_write:
  assumes "passes_quota e lims now r rd raw code bucket"
  shows "stops_at Write (trace_of (handleUpload e lims now r))"
  using run_write [OF assms] by (simp add: order_simps)

text \<open>Every run stops at some gate.\<close>

lemma run_stops: "\<exists>g. stops_at g (trace_of (handleUpload e lims now r))"
proof (cases rule: handleUpload_cases [where r = r and e = e and lims = lims and now = now])
  case wrong_method
  then show ?thesis using stops_method by blast
next
  case auth
  then show ?thesis using stops_auth by blast
next
  case params
  then show ?thesis using stops_params by blast
next
  case key
  then have "\<not> passes_access e r" by (simp add: passes_access_def)
  with key show ?thesis using stops_access by blast
next
  case sensor
  then have "\<not> passes_access e r" by (simp add: passes_access_def)
  with sensor show ?thesis using stops_access by blast
next
  case rate
  then have "\<not> passes_rate e lims now r" by (simp add: passes_rate_def)
  with rate show ?thesis using stops_rate by blast
next
  case decode
  then show ?thesis using stops_decode by blast
next
  case timestamp
  then show ?thesis using stops_validate by blast
next
  case (reading rd raw err)
  then have "Timestamp rd = None \<or> validateReading rd \<noteq> None" by simp
  with reading show ?thesis using stops_validate by blast
next
  case panic
  then show ?thesis using stops_classify by blast
next
  case retention
  then show ?thesis using stops_classify by blast
next
  case (quota rd raw code bucket resp)
  then have "\<not> passes_quota e lims now r rd raw code bucket" by (simp add: passes_quota_def)
  with quota show ?thesis using stops_quota by blast
next
  case admit
  then show ?thesis using stops_write by blast
qed

lemma stops_prefix:
  "stops_at g tr \<Longrightarrow> prefix (gates_of tr) pipeline \<and> gates_of tr \<noteq> []"
  by (auto simp add: stops_at_def take_is_prefix pipeline_def)


text \<open>The events of a run come in the order of the gates they belong to.\<close>

lemma run_sorted: "sorted (map (\<lambda>ev. gate_index (gate_of ev)) (trace_of (handleUpload e lims now r)))"
proof (cases rule: handleUpload_cases [where r = r and e = e and lims = lims and now = now])
  case wrong_method
  then show ?thesis by (simp add: run_method order_simps)
next
  case auth
  then show ?thesis by (simp add: run_auth order_simps)
next
  case params
  then show ?thesis by (simp add: run_params order_simps)
next
  case key
  then show ?thesis
    using validateAPIKey_cases [of e "org_id r" "bearer r"]
    by (auto simp add: run_key order_simps)
next
  case sensor
  then show ?thesis by (simp add: run_sensor order_simps)
next
  case rate
  then show ?thesis by (simp add: run_rate order_simps)
next
  case decode
  then show ?thesis by (simp add: run_decode order_simps)
next
  case timestamp
  then show ?thesis by (simp add: run_timestamp order_simps)
next
  case reading
  then show ?thesis by (simp add: run_reading order_simps)
next
  case (panic rd raw)
  then show ?thesis using run_panic [of e lims now r rd raw] by (simp add: order_simps)
next
  case (retention rd raw code)
  then show ?thesis using run_retention [of e lims now r rd raw code] by (simp add: order_simps)
next
  case (quota rd raw code bucket resp)
  then show ?thesis
    using run_quota [of e lims now r rd raw code bucket resp] by (simp add: order_simps)
next
  case (admit rd raw code bucket)
  then show ?thesis
    using run_write [of e lims now r rd raw code bucket] by (simp add: order_simps)
qed

text \<open>
  C8: with \<open>tr\<close> the trace of a run of the handler, the gates entered are an initial part of
  the pipeline MethodCheck, AuthHeaderPresent, ParamsPresent, AccessControl, RateLimit,
  DecodePayload, ReadingValidate, RetentionClassify, QuotaGuard, Write, all of it when the
  request is accepted, and the events come in the order of their gates. When a gate fails
  (the gates before it having passed) the run stops at that gate: no later gate is entered
  and no call of a later gate is made. In particular a request whose retention code is not in
  the tier table is answered 400 with no count query and no write.
\<close>

theorem C8_gate_order:
  "tr = trace_of (handleUpload e lims now r) \<Longrightarrow>
   prefix (gates_of tr) pipeline \<and> gates_of tr \<noteq> []
   \<and> sorted (map (\<lambda>ev. gate_index (gate_of ev)) tr)
   \<and> (outcome_of (handleUpload e lims now r) = Responded accepted \<longrightarrow> gates_of tr = pipeline)
   \<and> (Method r \<noteq> ''POST'' \<longrightarrow> stops_at MethodCheck tr)
   \<and> (Method r = ''POST'' \<and> \<not> HasPrefix (Authorization r) ''Bearer '' \<longrightarrow>
        stops_at AuthHeaderPresent tr)
   \<and> (Method r = ''POST'' \<and> HasPrefix (Authorization r) ''Bearer ''
        \<and> (org_id r = [] \<or> sensor_id r = []) \<longrightarrow> stops_at ParamsPresent tr)
   \<and> (passes_params r \<and> \<not> passes_access e r \<longrightarrow> stops_at AccessControl tr)
   \<and> (passes_access e r \<and> \<not> passes_rate e lims now r \<longrightarrow> stops_at RateLimit tr)
   \<and> (passes_rate e lims now r \<and> Body r = Inl err \<longrightarrow> stops_at DecodePayload tr)
   \<and> (passes_rate e lims now r \<and> Body r = Inr rd
        \<and> (Timestamp rd = None \<or> validateReading rd \<noteq> None) \<longrightarrow> stops_at ReadingValidate tr)
   \<and> (passes_validate e lims now r rd raw
        \<and> (retention_code (bearer r) = None
             \<or> retention_code (bearer r) = Some code \<and> retentionBuckets code = None) \<longrightarrow>
        stops_at RetentionClassify tr)
   \<and> (passes_classify e lims now r rd raw code bucket
        \<and> \<not> passes_quota e lims now r rd raw code bucket \<longrightarrow> stops_at QuotaGuard tr)
   \<and> (passes_validate e lims now r rd raw \<and> retention_code (bearer r) = Some code
        \<and> retentionBuckets code = None \<longrightarrow>
        upload_status e lims now r = Some 400 \<and> count_queries tr = [] \<and> point_writes tr = [])"
proof -
  assume tr: "tr = trace_of (handleUpload e lims now r)"
  obtain g where g: "stops_at g tr"
    using run_stops [of e lims now r] tr by blast
  have order: "prefix (gates_of tr) pipeline \<and> gates_of tr \<noteq> []"
    using g by (rule stops_prefix)
  have sorted: "sorted (map (\<lambda>ev. gate_index (gate_of ev)) tr)"
    unfolding tr by (rule run_sorted)
  have full: "gates_of tr = pipeline"
    if "outcome_of (handleUpload e lims now r) = Responded accepted"
  proof -
    from that obtain rd raw code bucket where
      "handleUpload e lims now r =
         (Responded accepted, tr_write r bucket @ [PointWrite bucket (request_point r rd raw)],
          snd (acquire lims now (bearer r) (sensor_id r)))"
      by (rule accepted_run)
    then show ?thesis
      by (simp add: tr order_simps)
  qed
  have unknown: "upload_status e lims now r = Some 400 \<and> count_queries tr = [] \<and> point_writes tr = []"
    if "passes_validate e lims now r rd raw \<and> retention_code (bearer r) = Some code
        \<and> retentionBuckets code = None"
  proof -
    from that have "handleUpload e lims now r =
       (Responded (http_Error ''Unknown retention level'' 400), tr_classify r,
        snd (acquire lims now (bearer r) (sensor_id r)))"
      using run_retention [of e lims now r rd raw code] by simp
    then show ?thesis
      by (simp add: tr run_simps tr_defs)
  qed
  show ?thesis
  proof (intro conjI impI)
    show "stops_at MethodCheck tr" if "Method r \<noteq> ''POST''"
      using that unfolding tr by (rule stops_method)
    show "stops_at AuthHeaderPresent tr"
      if "Method r = ''POST'' \<and> \<not> HasPrefix (Authorization r) ''Bearer ''"
      using that unfolding tr by (simp add: stops_auth)
    show "stops_at ParamsPresent tr"
      if "Method r = ''POST'' \<and> HasPrefix (Authorization r) ''Bearer ''
        \<and> (org_id r = [] \<or> sensor_id r = [])"
      using that unfolding tr by (simp add: stops_params)
    show "stops_at AccessControl tr" if "passes_params r \<and> \<not> passes_access e r"
      using that unfolding tr by (simp add: stops_access)
    show "stops_at RateLimit tr" if "passes_access e r \<and> \<not> passes_rate e lims now r"
      using that unfolding tr by (simp add: stops_rate)
    show "stops_at DecodePayload tr" if "passes_rate e lims now r \<and> Body r = Inl err"
      using that unfolding tr by (simp add: stops_decode)
    show "stops_at ReadingValidate tr"
      if "passes_rate e lims now r \<and> Body r = Inr rd
        \<and> (Timestamp rd = None \<or> validateReading rd \<noteq> None)"
      using that stops_validate [of e lims now r rd] unfolding tr by blast
    show "stops_at RetentionClassify tr"
      if "passes_validate e lims now r rd raw
        \<and> (retention_code (bearer r) = None
             \<or> retention_code (bearer r) = Some code \<and> retentionBuckets code = None)"
      using that stops_classify [of e lims now r rd raw code] unfolding tr by blast
    show "stops_at QuotaGuard tr"
      if "passes_classify e lims now r rd raw code bucket
        \<and> \<not> passes_quota e lims now r rd raw code bucket"
      using that stops_quota [of e lims now r rd raw code bucket] unfolding tr by blast
  qed (use order sorted full unknown in blast)+
qed

text \<open>
  C8 on the sample request with retention code 9999: the run stops at RetentionClassify with
  status 400, no count query and no write; and on the sample request itself, which runs
  through the whole pipeline.
\<close>

theorem C8_gate_order_witness:
  "upload_status sample_env Map.empty 0 (sample_request\<lparr>Authorization := ''Bearer key-999902''\<rparr>)
     = Some 400
   \<and> count_queries (trace_of (handleUpload sample_env Map.empty 0
        (sample_request\<lparr>Authorization := ''Bearer key-999902''\<rparr>))) = []
   \<and> point_writes (trace_of (handleUpload sample_env Map.empty 0
        (sample_request\<lparr>Authorization := ''Bearer key-999902''\<rparr>))) = []
   \<and> gates_of (trace_of (handleUpload sample_env Map.empty 0
        (sample_request\<lparr>Authorization := ''Bearer key-999902''\<rparr>)))
       = [MethodCheck, AuthHeaderPresent, ParamsPresent, AccessControl, RateLimit,
          DecodePayload, ReadingValidate, RetentionClassify]
   \<and> gates_of (trace_of (handleUpload sample_env Map.empty 0 sample_request)) = pipeline"
proof -
  note ev = eval_defs Let_def sample_defs validateCountLimit_def
  let ?r = "sample_request\<lparr>Authorization := ''Bearer key-999902''\<rparr>"
  let ?tr = "trace_of (handleUpload sample_env Map.empty 0 ?r)"
  have pv: "passes_validate sample_env Map.empty 0 ?r sample_reading 1700000000"
    and code: "retention_code (bearer ?r) = Some ''9999''"
    and none: "retentionBuckets ''9999'' = None"
    by (simp_all add: ev)
  note inst = C8_gate_order [of ?tr sample_env Map.empty 0 ?r "[]" sample_reading 1700000000
      "''9999''" "[]", OF refl]
  from inst pv code none have stop: "stops_at RetentionClassify ?tr"
    by blast
  from inst pv code none have
    "upload_status sample_env Map.empty 0 ?r = Some 400 \<and> count_queries ?tr = []
     \<and> point_writes ?tr = []"
    by blast
  moreover from stop have "gates_of ?tr
       = [MethodCheck, AuthHeaderPresent, ParamsPresent, AccessControl, RateLimit,
          DecodePayload, ReadingValidate, RetentionClassify]"
    by (simp add: stops_at_def pipeline_def)
  moreover have "gates_of (trace_of (handleUpload sample_env Map.empty 0 sample_request)) = pipeline"
  proof -
    have pq: "passes_quota sample_env Map.empty 0 sample_request sample_reading 1700000000
        ''0007'' ''retention_7d''"
      by (simp add: ev)
    have "outcome_of (handleUpload sample_env Map.empty 0 sample_request) = Responded accepted"
      using run_write [OF pq] by (simp add: outcome_of_def sample_env_def)
    then show ?thesis
      using C8_gate_order [of "trace_of (handleUpload sample_env Map.empty 0 sample_request)"
          sample_env Map.empty 0 sample_request "[]" sample_reading 1700000000 "[]" "[]", OF refl]
      by blast
  qed
  ultimately show ?thesis
    by blast
qed




subsection \<open>The rate gate\<close>

lemma acquire_present:
  "lims (apiKey @ '':'' @ sensorID) = Some b \<Longrightarrow>
   acquire lims now apiKey sensorID =
     (fst (Allow b now), lims(apiKey @ '':'' @ sensorID \<mapsto> snd (Allow b now)))"
  by (simp add: acquire_def getRateLimiter_def limiter_Allow_def case_prod_beta Let_def)

lemma acquire_absent:
  "lims (apiKey @ '':'' @ sensorID) = None \<Longrightarrow>
   acquire lims now apiKey sensorID =
     (fst (Allow (NewLimiter 2 2) now),
      lims(apiKey @ '':'' @ sensorID \<mapsto> snd (Allow (NewLimiter 2 2) now)))"
  by (simp add: acquire_def getRateLimiter_def limiter_Allow_def case_prod_beta Let_def)

text \<open>A bucket of capacity 2 refilled at 2 tokens per second gains one token every 500 ms.\<close>

lemma Allow_bucket:
  assumes "last0 \<le> t"
  shows "Allow \<lparr>capacity = 2, refill_rate = 2, current_tokens = tk, last_refill = last0\<rparr> t =
     (if 1 \<le> min 2 (tk + of_nat (t - last0) / 500000000)
      then (True, \<lparr>capacity = 2, refill_rate = 2,
              current_tokens = min 2 (tk + of_nat (t - last0) / 500000000) - 1, last_refill = t\<rparr>)
      else (False, \<lparr>capacity = 2, refill_rate = 2, current_tokens = tk, last_refill = last0\<rparr>))"
proof -
  have "of_nat (t - last0) / 1000000000 * (2::rat) = of_nat (t - last0) / 500000000"
    by simp
  with assms show ?thesis
    by (simp add: Allow_def advance_def Let_def)
qed

lemma Allow_new:
  "Allow (NewLimiter 2 2) t =
     (True, \<lparr>capacity = 2, refill_rate = 2, current_tokens = 1, last_refill = t\<rparr>)"
proof -
  have "min 2 (2 + of_nat t / (500000000::rat)) = 2"
    by simp
  then show ?thesis
    using Allow_bucket [of 0 t 2] by (simp add: NewLimiter_def)
qed

lemma registry_of_run:
  "passes_access e r \<Longrightarrow>
   registry_of (handleUpload e lims now r) = snd (acquire lims now (bearer r) (sensor_id r))"
proof (cases "fst (acquire lims now (bearer r) (sensor_id r))")
  case False
  assume "passes_access e r"
  with False show ?thesis by (simp add: run_rate registry_of_def)
next
  case True
  assume "passes_access e r"
  with True have "passes_rate e lims now r" by (simp add: passes_rate_def)
  then show ?thesis
    by (simp add: run_past_rate registry_of_def Let_def case_prod_beta
        split: sum.split option.split)
qed

lemma status_past_rate:
  assumes "passes_rate e lims now r"
  shows "upload_status e lims now r \<noteq> Some 429"
proof (cases rule: handleUpload_cases [where r = r and e = e and lims = lims and now = now])
  case wrong_method with assms show ?thesis by (simp add: passes_rate_def passes_access_def passes_params_def)
next
  case auth with assms show ?thesis by (simp add: passes_rate_def passes_access_def passes_params_def)
next
  case params with assms show ?thesis by (auto simp add: passes_rate_def passes_access_def passes_params_def)
next
  case key with assms show ?thesis by (simp add: passes_rate_def passes_access_def)
next
  case sensor with assms show ?thesis by (simp add: passes_rate_def passes_access_def)
next
  case rate with assms show ?thesis by (simp add: passes_rate_def)
next
  case decode then show ?thesis by (simp add: status_decode)
next
  case timestamp then show ?thesis by (simp add: status_timestamp)
next
  case reading then show ?thesis by (simp add: status_reading)
next
  case panic then show ?thesis by (simp add: run_panic run_simps)
next
  case (retention rd raw code)
  then show ?thesis using status_retention [of e lims now r rd raw code] by simp
next
  case (quota rd raw code bucket resp)
  then show ?thesis
    using status_quota [of e lims now r rd raw code bucket resp]
      validateCountLimit_status [of e "org_id r" code bucket resp]
    by auto
next
  case (admit rd raw code bucket)
  then show ?thesis using status_write [of e lims now r rd raw code bucket] by simp
qed

lemma status_429_iff:
  "passes_access e r \<Longrightarrow>
   upload_status e lims now r = Some 429 \<longleftrightarrow> \<not> fst (acquire lims now (bearer r) (sensor_id r))"
  using status_rate [of e r lims now] status_past_rate [of e lims now r]
  by (auto simp add: passes_rate_def)


text \<open>
  The rate gate on a key seen for the first time at \<open>t1\<close>, asked again at \<open>t2\<close>, \<open>t3\<close>
  and \<open>t4\<close> (nanoseconds): the registry after each request, and the verdicts.
\<close>

lemma acquire_sequence:
  assumes fresh: "lims (apiKey @ '':'' @ sensorID) = None"
    and t12: "t1 \<le> t2" and t23: "t2 \<le> t3" and burst: "t3 < t1 + 500000000"
    and later: "t2 + 500000000 \<le> t4"
  defines "b1 \<equiv> \<lparr>capacity = 2, refill_rate = 2, current_tokens = 1, last_refill = t1\<rparr>"
    and "b2 \<equiv> \<lparr>capacity = 2, refill_rate = 2,
                 current_tokens = of_nat (t2 - t1) / 500000000, last_refill = t2\<rparr>"
  shows "acquire lims t1 apiKey sensorID = (True, lims(apiKey @ '':'' @ sensorID \<mapsto> b1))"
    and "acquire (lims(apiKey @ '':'' @ sensorID \<mapsto> b1)) t2 apiKey sensorID
         = (True, lims(apiKey @ '':'' @ sensorID \<mapsto> b2))"
    and "acquire (lims(apiKey @ '':'' @ sensorID \<mapsto> b2)) t3 apiKey sensorID
         = (False, lims(apiKey @ '':'' @ sensorID \<mapsto> b2))"
    and "fst (acquire (lims(apiKey @ '':'' @ sensorID \<mapsto> b2)) t4 apiKey sensorID)"
proof -
  let ?key = "apiKey @ '':'' @ sensorID"
  show "acquire lims t1 apiKey sensorID = (True, lims(?key \<mapsto> b1))"
    using fresh by (simp add: acquire_absent Allow_new b1_def)
  have d12: "(of_nat (t2 - t1) :: rat) < 500000000"
    using t12 t23 burst by (simp add: of_nat_diff)
  have a2: "Allow b1 t2 = (True, b2)"
    unfolding b1_def b2_def using d12 by (simp add: Allow_bucket [OF t12])
  show "acquire (lims(?key \<mapsto> b1)) t2 apiKey sensorID = (True, lims(?key \<mapsto> b2))"
    using acquire_present [of "lims(?key \<mapsto> b1)" apiKey sensorID b1] by (simp add: a2)
  have sum3: "(of_nat (t2 - t1) + of_nat (t3 - t2) :: rat) = of_nat (t3 - t1)"
    using t12 t23 by (simp add: of_nat_diff)
  have d13: "(of_nat (t3 - t1) :: rat) < 500000000"
    using t12 t23 burst by (simp add: of_nat_diff)
  have "of_nat (t2 - t1) / 500000000 + of_nat (t3 - t2) / (500000000 :: rat)
      = of_nat (t3 - t1) / 500000000"
    using sum3 by (simp add: add_divide_distrib [symmetric])
  moreover have "of_nat (t3 - t1) / (500000000 :: rat) < 1"
    using d13 by simp
  ultimately have a3: "Allow b2 t3 = (False, b2)"
    unfolding b2_def by (simp add: Allow_bucket [OF t23])
  show "acquire (lims(?key \<mapsto> b2)) t3 apiKey sensorID = (False, lims(?key \<mapsto> b2))"
    using acquire_present [of "lims(?key \<mapsto> b2)" apiKey sensorID b2] by (simp add: a3)
  have t24: "t2 \<le> t4"
    using later by simp
  have "(500000000 :: rat) \<le> of_nat (t4 - t2)"
    using later by (simp add: of_nat_diff t24)
  then have "(1 :: rat) \<le> of_nat (t4 - t2) / 500000000"
    by simp
  moreover have "(0 :: rat) \<le> of_nat (t2 - t1) / 500000000"
    by simp
  ultimately have "(1 :: rat) \<le> of_nat (t2 - t1) / 500000000 + of_nat (t4 - t2) / 500000000"
    by linarith
  then have a4: "fst (Allow b2 t4)"
    unfolding b2_def by (simp add: Allow_bucket [OF t24])
  show "fst (acquire (lims(?key \<mapsto> b2)) t4 apiKey sensorID)"
    using acquire_present [of "lims(?key \<mapsto> b2)" apiKey sensorID b2] by (simp add: a4)
qed


text \<open>
  C7: a (credential, sensor) pair seen for the first time gets a bucket of capacity 2 refilled
  at 2 tokens per second, stored under the pair's key and used for every later request of the
  pair. The first request (at \<open>t1\<close>) and the second (at \<open>t2\<close>) pass the gate, a third within
  500 ms of the first (at \<open>t3\<close>) is refused, and a request 500 ms or more after the second
  (at \<open>t4\<close>) passes again; no other bucket is touched. Through the handler, for a request
  that passes access control: the refused request is answered 429, the others are not.
\<close>

theorem C7_token_bucket:
  "lims (apiKey @ '':'' @ sensorID) = None \<Longrightarrow>
   t1 \<le> t2 \<Longrightarrow> t2 \<le> t3 \<Longrightarrow> t3 < t1 + 500000000 \<Longrightarrow> t2 + 500000000 \<le> t4 \<Longrightarrow>
   snd (getRateLimiter lims apiKey sensorID) (apiKey @ '':'' @ sensorID)
     = Some \<lparr>capacity = 2, refill_rate = 2, current_tokens = 2, last_refill = 0\<rparr>
   \<and> (seen (apiKey @ '':'' @ sensorID) = Some b \<longrightarrow>
        getRateLimiter seen apiKey sensorID = (apiKey @ '':'' @ sensorID, seen))
   \<and> (let (a1, l1) = acquire lims t1 apiKey sensorID;
            (a2, l2) = acquire l1 t2 apiKey sensorID;
            (a3, l3) = acquire l2 t3 apiKey sensorID;
            (a4, l4) = acquire l3 t4 apiKey sensorID
        in a1 \<and> a2 \<and> \<not> a3 \<and> a4
           \<and> (\<forall>k. k \<noteq> apiKey @ '':'' @ sensorID \<longrightarrow> l4 k = lims k))
   \<and> (passes_access e r \<and> bearer r = apiKey \<and> sensor_id r = sensorID \<longrightarrow>
        (let l1 = registry_of (handleUpload e lims t1 r);
             l2 = registry_of (handleUpload e l1 t2 r);
             l3 = registry_of (handleUpload e l2 t3 r)
         in upload_status e lims t1 r \<noteq> Some 429
            \<and> upload_status e l1 t2 r \<noteq> Some 429
            \<and> upload_status e l2 t3 r = Some 429
            \<and> upload_status e l3 t4 r \<noteq> Some 429))"
proof -
  assume fresh: "lims (apiKey @ '':'' @ sensorID) = None"
    and t: "t1 \<le> t2" "t2 \<le> t3" "t3 < t1 + 500000000" "t2 + 500000000 \<le> t4"
  define key where "key = apiKey @ '':'' @ sensorID"
  let ?b1 = "\<lparr>capacity = 2, refill_rate = 2, current_tokens = 1, last_refill = t1\<rparr>"
  let ?b2 = "\<lparr>capacity = 2, refill_rate = 2,
              current_tokens = of_nat (t2 - t1) / 500000000, last_refill = t2\<rparr>"
  note seq = acquire_sequence [where lims = lims and apiKey = apiKey and sensorID = sensorID
      and ?t1.0 = t1 and ?t2.0 = t2 and ?t3.0 = t3 and ?t4.0 = t4, OF fresh t, folded key_def]
  have r1: "acquire lims t1 apiKey sensorID = (True, lims(key \<mapsto> ?b1))"
    by (rule seq(1))
  have r2: "acquire (lims(key \<mapsto> ?b1)) t2 apiKey sensorID = (True, lims(key \<mapsto> ?b2))"
    by (rule seq(2))
  have r3: "acquire (lims(key \<mapsto> ?b2)) t3 apiKey sensorID = (False, lims(key \<mapsto> ?b2))"
    by (rule seq(3))
  have r4: "fst (acquire (lims(key \<mapsto> ?b2)) t4 apiKey sensorID)"
    by (rule seq(4))
  have l4: "snd (acquire (lims(key \<mapsto> ?b2)) t4 apiKey sensorID)
      = (lims(key \<mapsto> ?b2))(key \<mapsto> snd (Allow ?b2 t4))"
    using acquire_present [of "lims(key \<mapsto> ?b2)" apiKey sensorID ?b2] by (simp add: key_def)
  have created: "snd (getRateLimiter lims apiKey sensorID) key
     = Some \<lparr>capacity = 2, refill_rate = 2, current_tokens = 2, last_refill = 0\<rparr>"
    using fresh by (simp add: getRateLimiter_def NewLimiter_def Let_def key_def)
  have reused: "getRateLimiter seen apiKey sensorID = (key, seen)" if "seen key = Some b"
    using that by (simp add: getRateLimiter_def Let_def key_def)
  have gate: "let (a1, l1) = acquire lims t1 apiKey sensorID;
            (a2, l2) = acquire l1 t2 apiKey sensorID;
            (a3, l3) = acquire l2 t3 apiKey sensorID;
            (a4, l4) = acquire l3 t4 apiKey sensorID
        in a1 \<and> a2 \<and> \<not> a3 \<and> a4 \<and> (\<forall>k. k \<noteq> key \<longrightarrow> l4 k = lims k)"
    using r4 l4 by (simp add: r1 r2 r3 case_prod_beta Let_def)
  have handler: "let l1 = registry_of (handleUpload e lims t1 r);
             l2 = registry_of (handleUpload e l1 t2 r);
             l3 = registry_of (handleUpload e l2 t3 r)
         in upload_status e lims t1 r \<noteq> Some 429
            \<and> upload_status e l1 t2 r \<noteq> Some 429
            \<and> upload_status e l2 t3 r = Some 429
            \<and> upload_status e l3 t4 r \<noteq> Some 429"
    if "passes_access e r \<and> bearer r = apiKey \<and> sensor_id r = sensorID"
  proof -
    from that have pa: "passes_access e r" and k: "bearer r = apiKey" "sensor_id r = sensorID"
      by simp_all
    have reg: "registry_of (handleUpload e l now r) = snd (acquire l now apiKey sensorID)" for l now
      using registry_of_run [OF pa, of l now] k by simp
    have st: "upload_status e l now r = Some 429 \<longleftrightarrow> \<not> fst (acquire l now apiKey sensorID)" for l now
      using status_429_iff [OF pa, of l now] k by simp
    show ?thesis
      using r4 by (simp add: Let_def reg st r1 r2 r3)
  qed
  from created reused gate handler show ?thesis
    unfolding key_def by blast
qed

text \<open>
  C7 on the sample request, first seen at time 0: three requests at time 0 and one 500 ms
  later.
\<close>

theorem C7_token_bucket_witness:
  "upload_status sample_env Map.empty 0 sample_request \<noteq> Some 429
   \<and> upload_status sample_env (registry_of (handleUpload sample_env Map.empty 0 sample_request)) 0
        sample_request \<noteq> Some 429
   \<and> upload_status sample_env
        (registry_of (handleUpload sample_env
           (registry_of (handleUpload sample_env Map.empty 0 sample_request)) 0 sample_request))
        0 sample_request = Some 429
   \<and> upload_status sample_env
        (registry_of (handleUpload sample_env
          (registry_of (handleUpload sample_env
             (registry_of (handleUpload sample_env Map.empty 0 sample_request)) 0 sample_request))
          0 sample_request))
        500000000 sample_request \<noteq> Some 429"
proof -
  have fresh: "(Map.empty :: limiters) (''key-000702'' @ '':'' @ ''dev1'') = None"
    by simp
  have pa: "passes_access sample_env sample_request \<and> bearer sample_request = ''key-000702''
      \<and> sensor_id sample_request = ''dev1''"
    by (simp add: eval_defs sample_defs)
  from C7_token_bucket [where lims = Map.empty and apiKey = "''key-000702''" and sensorID = "''dev1''"
      and ?t1.0 = 0 and ?t2.0 = 0 and ?t3.0 = 0 and ?t4.0 = 500000000 and seen = Map.empty
      and b = "NewLimiter 2 2" and e = sample_env and r = sample_request, OF fresh]
    pa
  show ?thesis
    by (simp add: Let_def)
qed


end
